theory Spec2Isabelle
  imports Main "HOL-Library.Multiset" "HOL-Library.Word"
begin

section \<open>JavaScript values and errors\<close>

text \<open>
  The JSON values the adapter receives from the service. Only what the code inspects is
  modelled: truthiness (\<open>if (response)\<close>, \<open>!response.transactionID\<close>) and property
  lookup.
\<close>

datatype jsval =
    JUndefined
  | JNull
  | JBool bool
  | JNum int
  | JStr string
  | JArr "jsval list"
  | JObj "(string \<times> jsval) list"

fun truthy :: "jsval \<Rightarrow> bool" where
  "truthy JUndefined = False"
| "truthy JNull = False"
| "truthy (JBool b) = b"
| "truthy (JNum n) = (n \<noteq> 0)"
| "truthy (JStr s) = (s \<noteq> [])"
| "truthy (JArr xs) = True"
| "truthy (JObj kvs) = True"

text \<open>\<open>v.key\<close> on a value that is neither null nor undefined: a missing property,
  and any property of a primitive, reads as \<open>undefined\<close>.\<close>

fun js_get :: "jsval \<Rightarrow> string \<Rightarrow> jsval" where
  "js_get (JObj kvs) k = (case map_of kvs k of Some v \<Rightarrow> v | None \<Rightarrow> JUndefined)"
| "js_get v k = JUndefined"

text \<open>
  The names exported by \<open>liskv3/errors\<close>; the adapter uses them only as the tag of an
  \<open>InvalidActionError\<close>.
\<close>

datatype error_name =
    multisigAccountDidNotExistError
  | blockDidNotExistError
  | accountWasNotMultisigError
  | accountDidNotExistError
  | transactionBroadcastError

text \<open>
  Thrown values. \<open>HttpError\<close> is what axios rejects with: a message and, when the server
  answered, the response status. \<open>InvalidActionError name message cause\<close> is the adapter's
  typed error.
\<close>

datatype js_error =
    Error string
  | TypeError string
  | HttpError string "nat option"
  | InvalidActionError error_name string "js_error option"

fun err_message :: "js_error \<Rightarrow> string" where
  "err_message (Error m) = m"
| "err_message (TypeError m) = m"
| "err_message (HttpError m st) = m"
| "err_message (InvalidActionError n m c) = m"

fun is_InvalidActionError :: "js_error \<Rightarrow> bool" where
  "is_InvalidActionError (InvalidActionError n m c) = True"
| "is_InvalidActionError e = False"

text \<open>\<open>notFound = (err) => err && err.response && err.response.status === 404\<close>\<close>

fun notFound :: "js_error \<Rightarrow> bool" where
  "notFound (HttpError m (Some st)) = (st = 404)"
| "notFound e = False"

section \<open>Failover client (lisk-service/client.js)\<close>

text \<open>
  A request is an effect on the outside world: \<open>axios.get url {params}\<close> is a function
  from the world before the call to the outcome (rejected with an error, or resolved with
  a response) and the world after it. The logger is the list of warnings written so far.
\<close>

type_synonym ('p, 'w) axios = "string \<Rightarrow> 'p \<Rightarrow> 'w \<Rightarrow> (js_error + jsval) \<times> 'w"

record HttpClient =
  baseUrl :: string
  fallbacks :: "string list"

definition HttpGetRequestFn ::
  "('p, 'w) axios \<Rightarrow> string \<Rightarrow> 'p \<Rightarrow> string \<Rightarrow> 'w \<Rightarrow> (js_error + jsval) \<times> 'w" where
  "HttpGetRequestFn axios_get path params = (\<lambda>baseUrl. axios_get (baseUrl @ path) params)"

definition HttpPostRequestFn ::
  "('p, 'w) axios \<Rightarrow> string \<Rightarrow> 'p \<Rightarrow> string \<Rightarrow> 'w \<Rightarrow> (js_error + jsval) \<times> 'w" where
  "HttpPostRequestFn axios_post path payload = (\<lambda>baseUrl. axios_post (baseUrl @ path) payload)"

definition fallback_warning :: "string \<Rightarrow> string" where
  "fallback_warning fallback =
     ''Failed to process data from fallback '' @ fallback @ '', trying next fallback''"

text \<open>
  The \<open>for\<close> loop of \<open>tryWithFallback\<close> over \<open>this.fallbacks\<close>: the first request that
  does not throw is returned at once; a throw is logged and the loop goes on; after the
  last fallback the result is \<open>null\<close>.
\<close>

fun tryWithFallback ::
  "(string \<Rightarrow> 'w \<Rightarrow> (js_error + jsval) \<times> 'w) \<Rightarrow> string list \<Rightarrow> 'w \<times> string list
     \<Rightarrow> jsval \<times> 'w \<times> string list" where
  "tryWithFallback requestFn [] (w, lg) = (JNull, w, lg)"
| "tryWithFallback requestFn (fallback # rest) (w, lg) =
     (case requestFn fallback w of
        (Inr response, w') \<Rightarrow> (response, w', lg)
      | (Inl e, w') \<Rightarrow> tryWithFallback requestFn rest (w', lg @ [fallback_warning fallback]))"

definition get_warning :: "string \<Rightarrow> string" where
  "get_warning b = ''Failed to get data from '' @ b @ '', trying fallbacks in given order''"

definition post_warning :: "string \<Rightarrow> string" where
  "post_warning b = ''Failed to get data from '' @ b @ '', trying fallbacks in the given order''"

definition client_get ::
  "('p, 'w) axios \<Rightarrow> HttpClient \<Rightarrow> string \<Rightarrow> 'p \<Rightarrow> 'w \<times> string list
     \<Rightarrow> (js_error + jsval) \<times> 'w \<times> string list" where
  "client_get axios_get c path params s =
     (let getReqFn = HttpGetRequestFn axios_get path params in
      case s of (w, lg) \<Rightarrow>
        (case getReqFn (baseUrl c) w of
           (Inr response, w') \<Rightarrow> (Inr response, w', lg)
         | (Inl err, w') \<Rightarrow>
             (case tryWithFallback getReqFn (fallbacks c) (w', lg @ [get_warning (baseUrl c)]) of
                (response, s') \<Rightarrow> if truthy response then (Inr response, s') else (Inl err, s'))))"

definition client_post ::
  "('p, 'w) axios \<Rightarrow> HttpClient \<Rightarrow> string \<Rightarrow> 'p \<Rightarrow> 'w \<times> string list
     \<Rightarrow> (js_error + jsval) \<times> 'w \<times> string list" where
  "client_post axios_post c path payload s =
     (let postReqFn = HttpPostRequestFn axios_post path payload in
      case s of (w, lg) \<Rightarrow>
        (case postReqFn (baseUrl c) w of
           (Inr response, w') \<Rightarrow> (Inr response, w', lg)
         | (Inl err, w') \<Rightarrow>
             (case tryWithFallback postReqFn (fallbacks c) (w', lg @ [post_warning (baseUrl c)]) of
                (response, s') \<Rightarrow> if truthy response then (Inr response, s') else (Inl err, s'))))"

text \<open>
  Vocabulary for the claims about the traversal: \<open>all_fail requestFn urls w\<close> is the
  world reached when the requests to \<open>urls\<close>, made in this order from world \<open>w\<close>, are all
  rejected, and \<open>None\<close> when one of them resolves.
\<close>

fun all_fail :: "(string \<Rightarrow> 'w \<Rightarrow> (js_error + jsval) \<times> 'w) \<Rightarrow> string list \<Rightarrow> 'w \<Rightarrow> 'w option" where
  "all_fail requestFn [] w = Some w"
| "all_fail requestFn (u # us) w =
     (case requestFn u w of
        (Inr response, w') \<Rightarrow> None
      | (Inl e, w') \<Rightarrow> all_fail requestFn us w')"

section \<open>Query repository (lisk-service/repository.js, lisk-service/meta.js)\<close>

text \<open>
  A template literal renders an integer \<open>Number\<close> in decimal, with a leading minus sign when
  it is negative (heights and timestamps are far below \<open>10^21\<close>, where JavaScript changes to
  the exponent notation).
\<close>

definition digit :: "nat \<Rightarrow> char" where
  "digit d = ''0123456789'' ! d"

fun decimal :: "nat \<Rightarrow> string" where
  "decimal n = (if 10 \<le> n then decimal (n div 10) @ [digit (n mod 10)] else [digit n])"

declare decimal.simps [simp del]

definition js_toString :: "int \<Rightarrow> string" where
  "js_toString i = (if 0 \<le> i then decimal (nat i) else CHR ''-'' # decimal (nat (- i)))"

text \<open>
  A filter object: its keys in insertion order. \<open>obj[k] = v\<close> overwrites the value of a key
  that is present and appends the key otherwise. A number that may be \<open>undefined\<close>
  (\<open>limit\<close>) is an \<open>int option\<close>.
\<close>

type_synonym js_object = "(string \<times> jsval) list"

fun js_set :: "string \<Rightarrow> jsval \<Rightarrow> js_object \<Rightarrow> js_object" where
  "js_set k v [] = [(k, v)]"
| "js_set k v ((k', v') # kvs) = (if k = k' then (k, v) # kvs else (k', v') # js_set k v kvs)"

definition js_num :: "int option \<Rightarrow> jsval" where
  "js_num n = (case n of None \<Rightarrow> JUndefined | Some i \<Rightarrow> JNum i)"

text \<open>The parts of \<open>meta.js\<close> the repository uses.\<close>

definition Blocks_path :: string where "Blocks_path = ''/api/v3/blocks''"
definition Blocks_filter_height :: string where "Blocks_filter_height = ''height''"
definition Blocks_filter_limit :: string where "Blocks_filter_limit = ''limit''"
definition Blocks_filter_sort :: string where "Blocks_filter_sort = ''sort''"
definition Blocks_sortBy_heightAsc :: string where "Blocks_sortBy_heightAsc = ''height:asc''"
definition Blocks_sortBy_heightDesc :: string where "Blocks_sortBy_heightDesc = ''height:desc''"

definition Transactions_path :: string where "Transactions_path = ''/api/v3/transactions''"
definition Transactions_filter_moduleCommand :: string where
  "Transactions_filter_moduleCommand = ''moduleCommand''"
definition Transactions_filter_senderAddress :: string where
  "Transactions_filter_senderAddress = ''senderAddress''"
definition Transactions_filter_timestamp :: string where
  "Transactions_filter_timestamp = ''timestamp''"
definition Transactions_filter_limit :: string where "Transactions_filter_limit = ''limit''"
definition Transactions_filter_sort :: string where "Transactions_filter_sort = ''sort''"
definition Transactions_sortBy_timestampAsc :: string where
  "Transactions_sortBy_timestampAsc = ''timestamp:asc''"
definition Transactions_sortBy_timestampDesc :: string where
  "Transactions_sortBy_timestampDesc = ''timestamp:desc''"

text \<open>
  What the service sends. An axios response carries the JSON body in \<open>data\<close>, and the body
  of a list endpoint is an envelope whose \<open>data\<close> is the list; both are \<open>'a wrapped\<close>.
  A block and a transaction have the fields the adapter reads; the nested objects of a
  transaction (\<open>params\<close>, \<open>sender\<close>, \<open>block\<close>) are flattened into field names that spell the
  path. \<open>'sig\<close> is the type of an entry of \<open>signatures\<close>: a hex string as the service sends
  it, a signature packet once the adapter has rewritten it.
\<close>

record 'a wrapped =
  data :: 'a

record block =
  block_id :: string
  height :: int
  timestamp :: int
  numberOfTransactions :: int

record 'sig service_transaction =
  tx_id :: string
  tx_moduleCommand :: string
  tx_nonce :: string
  tx_params_amount :: string
  tx_params_recipientAddress :: string
  tx_params_data :: string
  tx_sender_address :: string
  tx_block_timestamp :: int
  tx_signatures :: "'sig list"

text \<open>
  \<open>this.axiosClient.get(url, {params})\<close>: the outcome of the awaited request, for an URL
  and a filter object.
\<close>

type_synonym 'a axiosClient = "string \<Rightarrow> js_object \<Rightarrow> js_error + 'a wrapped wrapped"

record LiskServiceRepository =
  serviceURL :: string

definition repo_get ::
  "'a axiosClient \<Rightarrow> LiskServiceRepository \<Rightarrow> string \<Rightarrow> js_object \<Rightarrow> js_error + 'a wrapped" where
  "repo_get axiosClient_get r path params =
     (case axiosClient_get (serviceURL r @ path) params of
        Inl e \<Rightarrow> Inl e
      | Inr response \<Rightarrow> Inr (data response))"

definition getTransactions ::
  "'a axiosClient \<Rightarrow> LiskServiceRepository \<Rightarrow> js_object \<Rightarrow> js_error + 'a" where
  "getTransactions axiosClient_get r filterParams =
     (case repo_get axiosClient_get r Transactions_path filterParams of
        Inl e \<Rightarrow> Inl e
      | Inr body \<Rightarrow> Inr (data body))"

definition getBlocks ::
  "'a axiosClient \<Rightarrow> LiskServiceRepository \<Rightarrow> js_object \<Rightarrow> js_error + 'a" where
  "getBlocks axiosClient_get r filterParams =
     (case repo_get axiosClient_get r Blocks_path filterParams of
        Inl e \<Rightarrow> Inl e
      | Inr body \<Rightarrow> Inr (data body))"

text \<open>
  \<open>transactionFilterParams\<close> of \<open>getOutboundTransactions\<close>. The parameter \<open>order\<close> has
  the default \<open>'asc'\<close>, which JavaScript applies when the argument is omitted
  (\<open>None\<close>); any given value other than \<open>'asc'\<close> takes the \<open>else\<close> branch.
\<close>

definition outboundTransactionFilterParams ::
  "string \<Rightarrow> int \<Rightarrow> int option \<Rightarrow> string option \<Rightarrow> js_object" where
  "outboundTransactionFilterParams senderAddress fromTimestamp limit order_arg =
     (let order = (case order_arg of None \<Rightarrow> ''asc'' | Some v \<Rightarrow> v);
          transactionFilterParams =
            [(Transactions_filter_senderAddress, JStr senderAddress),
             (Transactions_filter_limit, js_num limit),
             (Transactions_filter_moduleCommand, JStr ''token:transfer'')]
      in if order = ''asc''
         then js_set Transactions_filter_timestamp (JStr (js_toString fromTimestamp @ '':''))
                (js_set Transactions_filter_sort (JStr Transactions_sortBy_timestampAsc)
                   transactionFilterParams)
         else js_set Transactions_filter_timestamp (JStr (''0:'' @ js_toString fromTimestamp))
                (js_set Transactions_filter_sort (JStr Transactions_sortBy_timestampDesc)
                   transactionFilterParams))"

definition getOutboundTransactions ::
  "('sig service_transaction list) axiosClient \<Rightarrow> LiskServiceRepository \<Rightarrow> string \<Rightarrow> int
     \<Rightarrow> int option \<Rightarrow> string option \<Rightarrow> js_error + 'sig service_transaction list" where
  "getOutboundTransactions axiosClient_get r senderAddress fromTimestamp limit order_arg =
     getTransactions axiosClient_get r
       (outboundTransactionFilterParams senderAddress fromTimestamp limit order_arg)"

text \<open>
  \<open>getBlocksBetweenHeights\<close>. A bound is \<open>None\<close> when it is \<open>null\<close> or \<open>undefined\<close>
  (\<open>fromHeight == null\<close> holds for both). \<open>blocks.shift()\<close> drops the first block when
  the list is not empty and \<open>blocks[0].height === fromHeight\<close>.
\<close>

definition heightString :: "int option \<Rightarrow> string" where
  "heightString h = (case h of None \<Rightarrow> [] | Some n \<Rightarrow> js_toString n)"

definition blocksBetweenHeightsFilterParams :: "int option \<Rightarrow> int option \<Rightarrow> int option \<Rightarrow> js_object" where
  "blocksBetweenHeightsFilterParams fromHeight toHeight limit =
     (let fromHeightString = heightString fromHeight;
          toHeightString = heightString toHeight
      in [(Blocks_filter_height, JStr (fromHeightString @ '':'' @ toHeightString)),
          (Blocks_filter_sort, JStr Blocks_sortBy_heightAsc),
          (Blocks_filter_limit, js_num limit)])"

definition getBlocksBetweenHeights ::
  "(block list) axiosClient \<Rightarrow> LiskServiceRepository \<Rightarrow> int option \<Rightarrow> int option \<Rightarrow> int option
     \<Rightarrow> js_error + block list" where
  "getBlocksBetweenHeights axiosClient_get r fromHeight toHeight limit =
     (case getBlocks axiosClient_get r (blocksBetweenHeightsFilterParams fromHeight toHeight limit) of
        Inl e \<Rightarrow> Inl e
      | Inr blocks \<Rightarrow>
          (case blocks of
             [] \<Rightarrow> Inr blocks
           | b # bs \<Rightarrow> if Some (height b) = fromHeight then Inr bs else Inr blocks))"

text \<open>
  Vocabulary for the claims: a height lies in the inclusive interval \<open>lo:hi\<close> of the
  index, a missing bound leaving that side open, and in the interval that excludes \<open>lo\<close>.
\<close>

definition in_closed_interval :: "int option \<Rightarrow> int option \<Rightarrow> int \<Rightarrow> bool" where
  "in_closed_interval lo hi h =
     ((case lo of None \<Rightarrow> True | Some a \<Rightarrow> a \<le> h) \<and> (case hi of None \<Rightarrow> True | Some z \<Rightarrow> h \<le> z))"

definition in_left_open_interval :: "int option \<Rightarrow> int option \<Rightarrow> int \<Rightarrow> bool" where
  "in_left_open_interval lo hi h =
     ((case lo of None \<Rightarrow> True | Some a \<Rightarrow> a < h) \<and> (case hi of None \<Rightarrow> True | Some z \<Rightarrow> h \<le> z))"

subsection \<open>The transaction index of the service\<close>

text \<open>
  Modelled from the spec: the transaction index of the remote service, which the
  repository queries and does not contain. The spec (sections 3, 4.2 and 6) and the
  comments of \<open>meta.js\<close> say: a filter is a mapping from keys to values; \<open>senderAddress\<close>
  and \<open>moduleCommand\<close> select by equality; \<open>timestamp\<close> can be expressed as an interval
  \<open>lo:hi\<close>, both bounds included, where an empty bound leaves that side open; \<open>sort\<close> is
  \<open>timestamp:asc\<close> or \<open>timestamp:desc\<close>; \<open>limit\<close> bounds the number of records. The
  model answers on the transactions path of its base URL with the matching transactions
  of the ledger \<open>db\<close>, in the requested order, cut to the limit. A parameter whose value is
  \<open>undefined\<close> is not sent; without \<open>sort\<close> the order is descending and without
  \<open>limit\<close> the page has \<open>default_limit\<close> records; an interval or a sort that cannot be
  read is rejected with the status 400. Only the keys that \<open>getOutboundTransactions\<close>
  sends are read.
\<close>

definition digit_value :: "char \<Rightarrow> nat option" where
  "digit_value c =
     (let k = of_char c :: nat in if 48 \<le> k \<and> k \<le> 57 then Some (k - 48) else None)"

fun parse_digits :: "nat \<Rightarrow> string \<Rightarrow> nat option" where
  "parse_digits acc [] = Some acc"
| "parse_digits acc (c # cs) =
     (case digit_value c of None \<Rightarrow> None | Some d \<Rightarrow> parse_digits (10 * acc + d) cs)"

definition parse_int :: "string \<Rightarrow> int option" where
  "parse_int s =
     (case s of
        [] \<Rightarrow> None
      | c # cs \<Rightarrow>
          if c = CHR ''-''
          then (if cs = [] then None else map_option (\<lambda>n. - int n) (parse_digits 0 cs))
          else map_option int (parse_digits 0 s))"

definition parse_bound :: "string \<Rightarrow> int option option" where
  "parse_bound s = (if s = [] then Some None else map_option Some (parse_int s))"

definition parse_interval :: "string \<Rightarrow> (int option \<times> int option) option" where
  "parse_interval s =
     (let lo = takeWhile (\<lambda>c. c \<noteq> CHR '':'') s;
          rest = dropWhile (\<lambda>c. c \<noteq> CHR '':'') s
      in case rest of
           [] \<Rightarrow> map_option (\<lambda>v. (Some v, Some v)) (parse_int lo)
         | colon # hi \<Rightarrow>
             (case parse_bound lo of
                None \<Rightarrow> None
              | Some a \<Rightarrow> (case parse_bound hi of None \<Rightarrow> None | Some b \<Rightarrow> Some (a, b))))"

definition sent :: "js_object \<Rightarrow> string \<Rightarrow> jsval option" where
  "sent params k = (case map_of params k of Some JUndefined \<Rightarrow> None | v \<Rightarrow> v)"

definition accepts :: "js_object \<Rightarrow> string \<Rightarrow> string \<Rightarrow> bool" where
  "accepts params k v =
     (case sent params k of None \<Rightarrow> True | Some (JStr s) \<Rightarrow> v = s | Some other \<Rightarrow> False)"

definition timestamp_interval :: "js_object \<Rightarrow> (int option \<times> int option) option" where
  "timestamp_interval params =
     (case sent params ''timestamp'' of
        None \<Rightarrow> Some (None, None)
      | Some (JStr s) \<Rightarrow> parse_interval s
      | Some (JNum n) \<Rightarrow> Some (Some n, Some n)
      | Some other \<Rightarrow> None)"

definition ascending :: "js_object \<Rightarrow> bool option" where
  "ascending params =
     (case sent params ''sort'' of
        None \<Rightarrow> Some False
      | Some (JStr s) \<Rightarrow>
          if s = ''timestamp:asc'' then Some True
          else if s = ''timestamp:desc'' then Some False
          else None
      | Some other \<Rightarrow> None)"

definition page_size :: "nat \<Rightarrow> js_object \<Rightarrow> nat" where
  "page_size default_limit params =
     (case sent params ''limit'' of Some (JNum n) \<Rightarrow> nat n | other \<Rightarrow> default_limit)"

definition service_transactions ::
  "string \<Rightarrow> nat \<Rightarrow> 'sig service_transaction list \<Rightarrow> ('sig service_transaction list) axiosClient" where
  "service_transactions base default_limit db url params =
     (if url \<noteq> base @ ''/api/v3/transactions'' then Inl (HttpError ''Not Found'' (Some 404))
      else
        case timestamp_interval params of
          None \<Rightarrow> Inl (HttpError ''Bad Request'' (Some 400))
        | Some (lo, hi) \<Rightarrow>
        case ascending params of
          None \<Rightarrow> Inl (HttpError ''Bad Request'' (Some 400))
        | Some asc \<Rightarrow>
            (let selected =
                   filter (\<lambda>tx. accepts params ''senderAddress'' (tx_sender_address tx)
                              \<and> accepts params ''moduleCommand'' (tx_moduleCommand tx)
                              \<and> in_closed_interval lo hi (tx_block_timestamp tx)) db;
                 by_time = sort_key tx_block_timestamp selected;
                 ordered = (if asc then by_time else rev by_time)
             in Inr \<lparr>data = \<lparr>data = take (page_size default_limit params) ordered\<rparr>\<rparr>))"

text \<open>What the call returns when the service is the index over the ledger \<open>db\<close>.\<close>

definition outbound_page ::
  "nat \<Rightarrow> 'sig service_transaction list \<Rightarrow> string \<Rightarrow> int \<Rightarrow> int option \<Rightarrow> string option
     \<Rightarrow> 'sig service_transaction list" where
  "outbound_page default_limit db addr t limit order =
     take (case limit of None \<Rightarrow> default_limit | Some n \<Rightarrow> nat n)
       (if order = None \<or> order = Some ''asc''
        then sort_key tx_block_timestamp
               (filter (\<lambda>tx. tx_sender_address tx = addr
                            \<and> tx_moduleCommand tx = ''token:transfer''
                            \<and> in_closed_interval (Some t) None (tx_block_timestamp tx)) db)
        else rev (sort_key tx_block_timestamp
               (filter (\<lambda>tx. tx_sender_address tx = addr
                            \<and> tx_moduleCommand tx = ''token:transfer''
                            \<and> in_closed_interval (Some 0) (Some t) (tx_block_timestamp tx)) db)))"


text \<open>
  \<open>post\<close>, \<open>postTransaction\<close> and \<open>getAuth\<close>. The body of the answer to a POST is any
  JSON value; the \<open>data\<close> of the auth endpoint's body is the account's record, or absent.
\<close>

type_synonym axiosClient_post = "string \<Rightarrow> js_object \<Rightarrow> js_error + jsval wrapped"

definition repo_post ::
  "axiosClient_post \<Rightarrow> LiskServiceRepository \<Rightarrow> string \<Rightarrow> js_object \<Rightarrow> js_error + jsval" where
  "repo_post axiosClient_post r path payload =
     (case axiosClient_post (serviceURL r @ path) payload of
        Inl e \<Rightarrow> Inl e
      | Inr response \<Rightarrow> Inr (data response))"

definition repo_postTransaction ::
  "axiosClient_post \<Rightarrow> LiskServiceRepository \<Rightarrow> string \<Rightarrow> js_error + jsval" where
  "repo_postTransaction axiosClient_post r transaction =
     repo_post axiosClient_post r Transactions_path [(''transaction'', JStr transaction)]"

record account_auth =
  mandatoryKeys :: "string list"
  optionalKeys :: "string list"
  numberOfSignatures :: int

definition getAuth ::
  "(account_auth option) axiosClient \<Rightarrow> LiskServiceRepository \<Rightarrow> string
     \<Rightarrow> js_error + account_auth option" where
  "getAuth axiosClient_get r walletAddress =
     (case repo_get axiosClient_get r ''/api/v3/auth'' [(''address'', JStr walletAddress)] of
        Inl e \<Rightarrow> Inl e
      | Inr body \<Rightarrow> Inr (data body))"

section \<open>Mapper (liskv3/mapper.js)\<close>

record signature_packet =
  signerAddress :: string
  publicKey :: string
  signature :: string

text \<open>The transaction the adapter hands to the DEX.\<close>

record dex_transaction =
  dex_id :: string
  message :: string
  amount :: string
  dex_timestamp :: int
  senderAddress :: string
  recipientAddress :: string
  signatures :: "signature_packet list"
  nonce :: string

text \<open>
  Modelled from the spec: \<open>computeDEXTransactionId\<close> of \<open>common/utils\<close>, which is not
  part of the sources at hand. The spec says \<open>id = deterministic_hash(senderAddress,
  nonce)\<close> and names no hash, so the hash is the parameter \<open>hash\<close>.
\<close>

definition computeDEXTransactionId :: "(string \<times> string \<Rightarrow> string) \<Rightarrow> string \<Rightarrow> string \<Rightarrow> string" where
  "computeDEXTransactionId hash sender_address nonce_string =
     hash (sender_address, nonce_string)"

definition transactionMapper ::
  "(string \<times> string \<Rightarrow> string) \<Rightarrow> signature_packet service_transaction \<Rightarrow> dex_transaction" where
  "transactionMapper hash t =
     \<lparr>dex_id = computeDEXTransactionId hash (tx_sender_address t) (tx_nonce t),
      message = tx_params_data t,
      amount = tx_params_amount t,
      dex_timestamp = tx_block_timestamp t,
      senderAddress = tx_sender_address t,
      recipientAddress = tx_params_recipientAddress t,
      signatures = tx_signatures t,
      nonce = tx_nonce t\<rparr>"

definition blockMapper :: "block \<Rightarrow> block" where
  "blockMapper b =
     \<lparr>block_id = block_id b, height = height b, timestamp = timestamp b,
      numberOfTransactions = numberOfTransactions b\<rparr>"

section \<open>Adapter (liskv3/adapter.js)\<close>

type_synonym byte = "8 word"

text \<open>
  \<open>Buffer.from(s, 'hex')\<close> decodes pairs of hexadecimal digits and stops at the first
  pair that is not one; a trailing single character is dropped.
\<close>

definition hex_value :: "char \<Rightarrow> nat option" where
  "hex_value c =
     (let n = of_char c :: nat in
      if 48 \<le> n \<and> n \<le> 57 then Some (n - 48)
      else if 97 \<le> n \<and> n \<le> 102 then Some (n - 87)
      else if 65 \<le> n \<and> n \<le> 70 then Some (n - 55)
      else None)"

fun Buffer_from_hex :: "string \<Rightarrow> byte list" where
  "Buffer_from_hex (a # b # rest) =
     (case hex_value a of
        None \<Rightarrow> []
      | Some x \<Rightarrow>
          (case hex_value b of
             None \<Rightarrow> []
           | Some y \<Rightarrow> of_nat (16 * x + y) # Buffer_from_hex rest))"
| "Buffer_from_hex s = []"

text \<open>\<open>buffer.toString('hex')\<close>\<close>

definition Buffer_toString_hex :: "byte list \<Rightarrow> string" where
  "Buffer_toString_hex bs =
     concat (map (\<lambda>b. [''0123456789abcdef'' ! (unat b div 16),
                        ''0123456789abcdef'' ! (unat b mod 16)]) bs)"

text \<open>
  \<open>Array.from(new Set(xs))\<close>: a set keeps its elements in insertion order, and adding an
  element that is present changes nothing.
\<close>

definition Set_add :: "'a \<Rightarrow> 'a list \<Rightarrow> 'a list" where
  "Set_add x s = (if x \<in> set s then s else s @ [x])"

definition Array_from_Set :: "'a list \<Rightarrow> 'a list" where
  "Array_from_Set xs = fold Set_add xs []"

text \<open>
  \<open>xs.slice(0, end)\<close>: a negative \<open>end\<close> counts from the end of the array.
\<close>

definition slice0 :: "'a list \<Rightarrow> int \<Rightarrow> 'a list" where
  "slice0 xs e = (if e < 0 then take (nat (int (length xs) + e)) xs else take (nat e) xs)"

text \<open>The transaction object built by \<open>postTransaction\<close> for \<open>liskTransactions.getBytes\<close>.\<close>

record signed_transaction =
  stx_module :: string
  stx_command :: string
  stx_nonce :: int
  stx_fee :: int
  stx_senderPublicKey :: "byte list"
  stx_signatures :: "byte list list"
  stx_params_tokenID :: "byte list"
  stx_params_recipientAddress :: "byte list"
  stx_params_amount :: int
  stx_params_data :: string

text \<open>
  The transaction the DEX passes to \<open>postTransaction\<close>: what \<open>transactionMapper\<close>
  produces, with the fields needed for signing.
\<close>

record prepared_transaction = dex_transaction +
  tokenID :: string
  fee :: string
  senderPublicKey :: string

text \<open>
  What the adapter calls and does not define: the library functions
  (\<open>@liskhq/lisk-cryptography\<close>, \<open>@liskhq/lisk-client\<close>, \<open>lodash.shuffle\<close>, the built-in
  \<open>BigInt\<close>), \<open>toBuffer\<close> of \<open>common/utils\<close>, the channel of the host framework, and
  the outcomes of the HTTP requests. A function that can throw returns a sum. \<open>shuffle\<close>
  is one possible outcome of the random shuffle for each input.
\<close>

record env =
  getBase32AddressFromPublicKey :: "byte list \<Rightarrow> string \<Rightarrow> string"
  toBuffer :: "string \<Rightarrow> byte list"
  shuffle :: "signature_packet list \<Rightarrow> signature_packet list"
  BigInt :: "string \<Rightarrow> js_error + int"
  getAddressFromLisk32Address :: "string \<Rightarrow> js_error + byte list"
  getBytes :: "signed_transaction \<Rightarrow> js_error + byte list"
  deterministic_hash :: "string \<times> string \<Rightarrow> string"
  channel_invoke :: "string \<Rightarrow> js_error + unit"
  channel_publish :: "string \<Rightarrow> js_error + unit"
  axios_get_auth :: "(account_auth option) axiosClient"
  axios_post :: axiosClient_post

text \<open>
  The adapter after its constructor (\<open>LiskV3DEXAdapter\<close>), and after \<open>load\<close>, which adds
  the member keys and the threshold of the DEX wallet; the actions run on a loaded
  adapter.
\<close>

record config =
  config_dexWalletAddress :: "string option"
  config_chainSymbol :: "string option"
  config_serviceURL :: "string option"

record LiskV3DEXAdapter =
  adapter_alias :: string
  dexWalletAddress :: "string option"
  chainSymbol :: string
  liskServiceRepo :: LiskServiceRepository

record loaded_adapter = LiskV3DEXAdapter +
  dexMultisigPublicKeys :: "string list"
  dexNumberOfSignatures :: int

definition DEFAULT_MODULE_ALIAS :: string where "DEFAULT_MODULE_ALIAS = ''lisk_v4_dex_adapter''"
definition MODULE_BOOTSTRAP_EVENT :: string where "MODULE_BOOTSTRAP_EVENT = ''bootstrap''"
definition DEFAULT_MAIN_NET_URL :: string where "DEFAULT_MAIN_NET_URL = ''https://service.lisk.com''"

text \<open>\<open>x || d\<close> for a string that may be \<open>undefined\<close>.\<close>

definition or_default :: "string option \<Rightarrow> string \<Rightarrow> string" where
  "or_default x d = (case x of None \<Rightarrow> d | Some s \<Rightarrow> if s = [] then d else s)"

definition new_LiskServiceRepository :: "config \<Rightarrow> LiskServiceRepository" where
  "new_LiskServiceRepository cfg = \<lparr>serviceURL = or_default (config_serviceURL cfg) DEFAULT_MAIN_NET_URL\<rparr>"

definition new_LiskV3DEXAdapter :: "string option \<Rightarrow> config \<Rightarrow> LiskV3DEXAdapter" where
  "new_LiskV3DEXAdapter alias_arg cfg =
     \<lparr>adapter_alias = or_default alias_arg DEFAULT_MODULE_ALIAS,
      dexWalletAddress = config_dexWalletAddress cfg,
      chainSymbol = or_default (config_chainSymbol cfg) ''lsk'',
      liskServiceRepo = new_LiskServiceRepository cfg\<rparr>"

definition load :: "env \<Rightarrow> LiskV3DEXAdapter \<Rightarrow> js_error + loaded_adapter" where
  "load ev a =
     (if or_default (dexWalletAddress a) [] = []
      then Inl (Error ''Dex wallet address not provided in the config'')
      else
        case channel_invoke ev ''app:updateModuleState'' of
          Inl e \<Rightarrow> Inl e
        | Inr u \<Rightarrow>
        case channel_publish ev (adapter_alias a @ '':'' @ MODULE_BOOTSTRAP_EVENT) of
          Inl e \<Rightarrow> Inl e
        | Inr u' \<Rightarrow>
        case getAuth (axios_get_auth ev) (liskServiceRepo a) (or_default (dexWalletAddress a) []) of
          Inl e \<Rightarrow> Inl e
        | Inr None \<Rightarrow> Inl (TypeError ''Cannot read properties of undefined'')
        | Inr (Some accountAuth) \<Rightarrow>
            Inr (LiskV3DEXAdapter.extend a
                  (loaded_adapter.fields
                    (Array_from_Set (mandatoryKeys accountAuth @ optionalKeys accountAuth))
                    (numberOfSignatures accountAuth))))"

definition isMultisigAccount :: "account_auth \<Rightarrow> bool" where
  "isMultisigAccount accountAuth = (numberOfSignatures accountAuth > 0)"

definition multisigAccountDidNotExist :: "string \<Rightarrow> js_error option \<Rightarrow> js_error" where
  "multisigAccountDidNotExist walletAddress cause =
     InvalidActionError multisigAccountDidNotExistError
       (''Error getting multisig account with address '' @ walletAddress) cause"

definition accountWasNotMultisig :: "string \<Rightarrow> js_error" where
  "accountWasNotMultisig walletAddress =
     InvalidActionError accountWasNotMultisigError
       (''Account with address '' @ walletAddress @ '' is not a multisig account'') None"

text \<open>
  The \<open>catch\<close> of both multisig actions: an \<open>InvalidActionError\<close> is thrown on as it
  is, anything else is wrapped.
\<close>

definition multisig_catch :: "string \<Rightarrow> js_error \<Rightarrow> js_error" where
  "multisig_catch walletAddress err =
     (if is_InvalidActionError err then err
      else multisigAccountDidNotExist walletAddress (Some err))"

definition getMultisigWalletMembers ::
  "env \<Rightarrow> 'a LiskV3DEXAdapter_scheme \<Rightarrow> string \<Rightarrow> js_error + string list" where
  "getMultisigWalletMembers ev a walletAddress =
     (case getAuth (axios_get_auth ev) (liskServiceRepo a) walletAddress of
        Inl err \<Rightarrow> Inl (multisig_catch walletAddress err)
      | Inr None \<Rightarrow>
          Inl (multisig_catch walletAddress (multisigAccountDidNotExist walletAddress None))
      | Inr (Some accountAuth) \<Rightarrow>
          if \<not> isMultisigAccount accountAuth
          then Inl (multisig_catch walletAddress (accountWasNotMultisig walletAddress))
          else Inr (map (\<lambda>k. getBase32AddressFromPublicKey ev (toBuffer ev k) (chainSymbol a))
                      (optionalKeys accountAuth)))"

definition getMinMultisigRequiredSignatures ::
  "env \<Rightarrow> 'a LiskV3DEXAdapter_scheme \<Rightarrow> string \<Rightarrow> js_error + int" where
  "getMinMultisigRequiredSignatures ev a walletAddress =
     (case getAuth (axios_get_auth ev) (liskServiceRepo a) walletAddress of
        Inl err \<Rightarrow> Inl (multisig_catch walletAddress err)
      | Inr None \<Rightarrow>
          Inl (multisig_catch walletAddress (multisigAccountDidNotExist walletAddress None))
      | Inr (Some accountAuth) \<Rightarrow>
          if \<not> isMultisigAccount accountAuth
          then Inl (multisig_catch walletAddress (accountWasNotMultisig walletAddress))
          else Inr (numberOfSignatures accountAuth))"

text \<open>
  \<open>this.transactionMapper\<close>: the signatures of a transaction of the service are hex
  strings, one position per member key. The \<open>map\<close> pairs the member key at each index with
  \<open>transaction.signatures[index]\<close> and the \<open>filter\<close> keeps the truthy ones: those inside
  the array that are not the empty string.
\<close>

definition sanitizedSignatures :: "env \<Rightarrow> loaded_adapter \<Rightarrow> string list \<Rightarrow> signature_packet list" where
  "sanitizedSignatures ev a sigs =
     List.map_filter
       (\<lambda>(k, index).
          if index < length sigs \<and> sigs ! index \<noteq> []
          then Some \<lparr>signerAddress = getBase32AddressFromPublicKey ev (toBuffer ev k) (chainSymbol a),
                     publicKey = k, signature = sigs ! index\<rparr>
          else None)
       (zip (dexMultisigPublicKeys a) [0 ..< length (dexMultisigPublicKeys a)])"

definition adapter_transactionMapper ::
  "env \<Rightarrow> loaded_adapter \<Rightarrow> string service_transaction \<Rightarrow> dex_transaction" where
  "adapter_transactionMapper ev a t =
     (let sanitizedTransaction =
            \<lparr>tx_id = tx_id t, tx_moduleCommand = tx_moduleCommand t, tx_nonce = tx_nonce t,
             tx_params_amount = tx_params_amount t,
             tx_params_recipientAddress = tx_params_recipientAddress t,
             tx_params_data = tx_params_data t, tx_sender_address = tx_sender_address t,
             tx_block_timestamp = tx_block_timestamp t,
             tx_signatures = sanitizedSignatures ev a (tx_signatures t)\<rparr>
      in transactionMapper (deterministic_hash ev) sanitizedTransaction)"

subsection \<open>postTransaction\<close>

text \<open>
  \<open>selectedSignatures\<close>: nothing for an empty list; otherwise the first packet and the
  first \<open>dexNumberOfSignatures - 1\<close> of the shuffled others.
\<close>

definition selectedSignatures :: "env \<Rightarrow> loaded_adapter \<Rightarrow> signature_packet list \<Rightarrow> signature_packet list" where
  "selectedSignatures ev a sigs =
     (case sigs of
        [] \<Rightarrow> []
      | first # others \<Rightarrow> first # slice0 (shuffle ev others) (dexNumberOfSignatures a - 1))"

text \<open>
  The \<open>for\<close> loop that fills the object \<open>publicKeySignatures\<close>: a later packet
  replaces an earlier one with the same public key. The keys are hex strings, so none of
  them names a property that an object inherits.
\<close>

definition publicKeySignatures :: "signature_packet list \<Rightarrow> (string \<rightharpoonup> signature_packet)" where
  "publicKeySignatures selected = fold (\<lambda>signaturePacket m. m(publicKey signaturePacket \<mapsto> signaturePacket)) selected Map.empty"

definition assembledSignatures :: "env \<Rightarrow> loaded_adapter \<Rightarrow> signature_packet list \<Rightarrow> byte list list" where
  "assembledSignatures ev a sigs =
     (let pks = publicKeySignatures (selectedSignatures ev a sigs)
      in map (\<lambda>memberPublicKey.
                Buffer_from_hex (case pks memberPublicKey of
                                   Some signaturePacket \<Rightarrow> signature signaturePacket
                                 | None \<Rightarrow> []))
           (dexMultisigPublicKeys a))"

text \<open>
  \<open>signedTxn\<close>: the fields are evaluated in the order of the object literal and the first
  conversion that throws ends \<open>postTransaction\<close> with that error; this happens before the
  \<open>try\<close>, so the error is not wrapped.
\<close>

definition signedTxn :: "env \<Rightarrow> loaded_adapter \<Rightarrow> prepared_transaction \<Rightarrow> js_error + signed_transaction" where
  "signedTxn ev a t =
     (let sigs = assembledSignatures ev a (signatures t) in
      case BigInt ev (nonce t) of Inl e \<Rightarrow> Inl e | Inr n \<Rightarrow>
      case BigInt ev (fee t) of Inl e \<Rightarrow> Inl e | Inr f \<Rightarrow>
      case getAddressFromLisk32Address ev (recipientAddress t) of Inl e \<Rightarrow> Inl e | Inr rcpt \<Rightarrow>
      case BigInt ev (amount t) of Inl e \<Rightarrow> Inl e | Inr amt \<Rightarrow>
        Inr \<lparr>stx_module = ''token'', stx_command = ''transfer'', stx_nonce = n, stx_fee = f,
             stx_senderPublicKey = Buffer_from_hex (senderPublicKey t),
             stx_signatures = sigs,
             stx_params_tokenID = Buffer_from_hex (tokenID t),
             stx_params_recipientAddress = rcpt,
             stx_params_amount = amt,
             stx_params_data = message t\<rparr>)"

definition broadcastError :: "js_error \<Rightarrow> js_error" where
  "broadcastError err =
     (let baseMessage = (if err_message err \<noteq> [] then '' - '' @ err_message err else [])
      in InvalidActionError transactionBroadcastError
           (''Error broadcasting transaction to the lisk network'' @ baseMessage) (Some err))"

text \<open>The \<open>try\<close> block of \<open>postTransaction\<close> and its \<open>catch\<close>.\<close>

definition broadcast :: "env \<Rightarrow> loaded_adapter \<Rightarrow> signed_transaction \<Rightarrow> js_error + unit" where
  "broadcast ev a stx =
     (case getBytes ev stx of
        Inl err \<Rightarrow> Inl (broadcastError err)
      | Inr binaryTxn \<Rightarrow>
          (let payloadTxn = Buffer_toString_hex binaryTxn in
           case repo_postTransaction (axios_post ev) (liskServiceRepo a) payloadTxn of
             Inl err \<Rightarrow> Inl (broadcastError err)
           | Inr response \<Rightarrow>
               if \<not> truthy response \<or> \<not> truthy (js_get response ''transactionID'')
               then Inl (broadcastError (Error ''Invalid transaction response''))
               else Inr ()))"

definition postTransaction :: "env \<Rightarrow> loaded_adapter \<Rightarrow> prepared_transaction \<Rightarrow> js_error + unit" where
  "postTransaction ev a t =
     (case signedTxn ev a t of
        Inl e \<Rightarrow> Inl e
      | Inr stx \<Rightarrow> broadcast ev a stx)"

section \<open>Concrete inputs used to exercise the theorems\<close>

subsection \<open>Endpoints\<close>

text \<open>
  A world that records the URLs requested, in order; the outcome of a request is fixed by
  its URL.
\<close>

definition traced :: "(string \<Rightarrow> js_error + jsval) \<Rightarrow> (unit, string list) axios" where
  "traced outcome url params w = (outcome url, w @ [url])"

definition unreachable :: js_error where
  "unreachable = HttpError ''connect ECONNREFUSED'' None"

text \<open>
  Two axios response objects: one whose body is the envelope of a block, one with an
  empty body.
\<close>

definition block100 :: jsval where
  "block100 = JObj [(''status'', JNum 200),
                    (''data'', JObj [(''data'', JArr [JObj [(''height'', JNum 100)]])])]"

definition empty_body :: jsval where
  "empty_body = JObj [(''status'', JNum 200), (''data'', JStr [])]"

definition F2_resolves :: "jsval \<Rightarrow> string \<Rightarrow> js_error + jsval" where
  "F2_resolves response url = (if url = ''F2/blocks'' then Inr response else Inl unreachable)"

definition all_down :: "string \<Rightarrow> js_error + jsval" where
  "all_down url = (if url = ''P/blocks'' then Inl (HttpError ''timeout'' None) else Inl unreachable)"

definition three_fallbacks :: HttpClient where
  "three_fallbacks = \<lparr>baseUrl = ''P'', fallbacks = [''F1'', ''F2'', ''F3'']\<rparr>"

subsection \<open>A block index and a transaction index\<close>

definition blk :: "int \<Rightarrow> block" where
  "blk h = \<lparr>block_id = ''b'', height = h, timestamp = 10 * h, numberOfTransactions = 0\<rparr>"

definition main_repo :: LiskServiceRepository where
  "main_repo = \<lparr>serviceURL = ''https://service.lisk.com''\<rparr>"

text \<open>An index that holds blocks 100 to 102 and answers the one query it is sent here.\<close>

definition block_index :: "(block list) axiosClient" where
  "block_index url params =
     (if url = ''https://service.lisk.com/api/v3/blocks''
         \<and> params = [(''height'', JStr ''100:102''), (''sort'', JStr ''height:asc''),
                      (''limit'', JNum 10)]
      then Inr \<lparr>data = \<lparr>data = [blk 100, blk 101, blk 102]\<rparr>\<rparr>
      else Inl (HttpError ''Not Found'' (Some 404)))"

definition transfer :: "string \<Rightarrow> int \<Rightarrow> string service_transaction" where
  "transfer sender_address ts =
     \<lparr>tx_id = ''upstream'', tx_moduleCommand = ''token:transfer'', tx_nonce = ''1'',
      tx_params_amount = ''20000000'', tx_params_recipientAddress = ''lskrcpt'',
      tx_params_data = [], tx_sender_address = sender_address, tx_block_timestamp = ts,
      tx_signatures = []\<rparr>"

definition stake :: "string \<Rightarrow> int \<Rightarrow> string service_transaction" where
  "stake sender_address ts =
     \<lparr>tx_id = ''upstream'', tx_moduleCommand = ''pos:stake'', tx_nonce = ''2'',
      tx_params_amount = ''0'', tx_params_recipientAddress = [],
      tx_params_data = [], tx_sender_address = sender_address, tx_block_timestamp = ts,
      tx_signatures = []\<rparr>"

definition ledger :: "string service_transaction list" where
  "ledger = [transfer ''lsksender'' 7, transfer ''lskother'' 6, transfer ''lsksender'' 2,
             stake ''lsksender'' 9, transfer ''lsksender'' 5]"

subsection \<open>An environment and a DEX wallet\<close>

text \<open>
  The wallet \<open>lskdex\<close> has one mandatory key and two optional keys and needs two
  signatures; \<open>lskplain\<close> is an account that is not multisig.
\<close>

definition dex_account :: account_auth where
  "dex_account = \<lparr>mandatoryKeys = [''aa''], optionalKeys = [''bb'', ''cc''], numberOfSignatures = 2\<rparr>"

definition plain_account :: account_auth where
  "plain_account = \<lparr>mandatoryKeys = [], optionalKeys = [], numberOfSignatures = 0\<rparr>"

definition auth_service :: "(account_auth option) axiosClient" where
  "auth_service url params =
     (if url = ''https://service.lisk.com/api/v3/auth'' \<and> params = [(''address'', JStr ''lskdex'')]
      then Inr \<lparr>data = \<lparr>data = Some dex_account\<rparr>\<rparr>
      else if url = ''https://service.lisk.com/api/v3/auth''
              \<and> params = [(''address'', JStr ''lskplain'')]
      then Inr \<lparr>data = \<lparr>data = Some plain_account\<rparr>\<rparr>
      else Inl (HttpError ''Not Found'' (Some 404)))"

definition accepting_node :: axiosClient_post where
  "accepting_node url payload = Inr \<lparr>data = JObj [(''message'', JStr ''ok''), (''transactionID'', JStr ''ab12'')]\<rparr>"

definition silent_node :: axiosClient_post where
  "silent_node url payload = Inr \<lparr>data = JObj [(''message'', JStr ''ok'')]\<rparr>"

definition toy_BigInt :: "string \<Rightarrow> js_error + int" where
  "toy_BigInt s =
     (if s = ''1'' then Inr 1
      else if s = ''700000'' then Inr 700000
      else if s = ''20000000'' then Inr 20000000
      else Inl (Error ''Cannot convert to a BigInt''))"

definition toy_address :: "byte list \<Rightarrow> string \<Rightarrow> string" where
  "toy_address buf prefix = prefix @ Buffer_toString_hex buf"

definition toy_lisk32 :: "string \<Rightarrow> js_error + byte list" where
  "toy_lisk32 s = (if s = ''lskrcpt'' then Inr [1, 2, 3] else Inl (Error ''Invalid address''))"

definition toy_getBytes :: "signed_transaction \<Rightarrow> js_error + byte list" where
  "toy_getBytes stx = Inr (concat (stx_signatures stx))"

definition toy_hash :: "string \<times> string \<Rightarrow> string" where
  "toy_hash p = fst p @ ''-'' @ snd p"

definition channel_ok :: "string \<Rightarrow> js_error + unit" where
  "channel_ok name = Inr ()"

definition example_env :: env where
  "example_env =
     \<lparr>getBase32AddressFromPublicKey = toy_address,
      toBuffer = Buffer_from_hex,
      shuffle = rev,
      BigInt = toy_BigInt,
      getAddressFromLisk32Address = toy_lisk32,
      getBytes = toy_getBytes,
      deterministic_hash = toy_hash,
      channel_invoke = channel_ok,
      channel_publish = channel_ok,
      axios_get_auth = auth_service,
      axios_post = accepting_node\<rparr>"

definition dex_config :: config where
  "dex_config = \<lparr>config_dexWalletAddress = Some ''lskdex'', config_chainSymbol = None,
                  config_serviceURL = None\<rparr>"

definition dex_adapter :: LiskV3DEXAdapter where
  "dex_adapter = new_LiskV3DEXAdapter None dex_config"

definition loaded_dex :: loaded_adapter where
  "loaded_dex =
     \<lparr>adapter_alias = ''lisk_v4_dex_adapter'', dexWalletAddress = Some ''lskdex'',
      chainSymbol = ''lsk'', liskServiceRepo = \<lparr>serviceURL = ''https://service.lisk.com''\<rparr>,
      dexMultisigPublicKeys = [''aa'', ''bb'', ''cc''], dexNumberOfSignatures = 2\<rparr>"

definition packet :: "string \<Rightarrow> string \<Rightarrow> signature_packet" where
  "packet k s = \<lparr>signerAddress = ''lsk'' @ k, publicKey = k, signature = s\<rparr>"

definition prepared :: "signature_packet list \<Rightarrow> prepared_transaction" where
  "prepared sigs =
     \<lparr>dex_id = ''lskdex-1'', message = ''testing'', amount = ''20000000'', dex_timestamp = 0,
      senderAddress = ''lskdex'', recipientAddress = ''lskrcpt'', signatures = sigs,
      nonce = ''1'', tokenID = ''0000000000000000'', fee = ''700000'',
      senderPublicKey = ''aa''\<rparr>"

definition three_packets :: "signature_packet list" where
  "three_packets = [packet ''bb'' ''0b'', packet ''cc'' ''0c'', packet ''aa'' ''0a'']"

definition signed_example :: "byte list list \<Rightarrow> signed_transaction" where
  "signed_example sigs =
     \<lparr>stx_module = ''token'', stx_command = ''transfer'', stx_nonce = 1, stx_fee = 700000,
      stx_senderPublicKey = [170], stx_signatures = sigs,
      stx_params_tokenID = [0, 0, 0, 0, 0, 0, 0, 0],
      stx_params_recipientAddress = [1, 2, 3], stx_params_amount = 20000000,
      stx_params_data = ''testing''\<rparr>"

definition silent_env :: env where
  "silent_env = example_env\<lparr>axios_post := silent_node\<rparr>"

definition upstream_a :: "string service_transaction" where
  "upstream_a =
     \<lparr>tx_id = ''5f3a'', tx_moduleCommand = ''token:transfer'', tx_nonce = ''7'',
      tx_params_amount = ''100'', tx_params_recipientAddress = ''lskone'',
      tx_params_data = ''first'', tx_sender_address = ''lskdex'', tx_block_timestamp = 11,
      tx_signatures = [''0a'', [], ''0c'']\<rparr>"

definition upstream_b :: "string service_transaction" where
  "upstream_b =
     \<lparr>tx_id = ''9b21'', tx_moduleCommand = ''token:transfer'', tx_nonce = ''7'',
      tx_params_amount = ''250'', tx_params_recipientAddress = ''lsktwo'',
      tx_params_data = ''second'', tx_sender_address = ''lskdex'', tx_block_timestamp = 12,
      tx_signatures = []\<rparr>"

definition sanitized_a :: "signature_packet service_transaction" where
  "sanitized_a =
     \<lparr>tx_id = ''5f3a'', tx_moduleCommand = ''token:transfer'', tx_nonce = ''7'',
      tx_params_amount = ''100'', tx_params_recipientAddress = ''lskone'',
      tx_params_data = ''first'', tx_sender_address = ''lskdex'', tx_block_timestamp = 11,
      tx_signatures = [packet ''aa'' ''0a'', packet ''cc'' ''0c'']\<rparr>"

definition plain_adapter :: LiskV3DEXAdapter where
  "plain_adapter =
     new_LiskV3DEXAdapter None
       \<lparr>config_dexWalletAddress = Some ''lskplain'', config_chainSymbol = None,
        config_serviceURL = None\<rparr>"

definition loaded_plain :: loaded_adapter where
  "loaded_plain =
     \<lparr>adapter_alias = ''lisk_v4_dex_adapter'', dexWalletAddress = Some ''lskplain'',
      chainSymbol = ''lsk'', liskServiceRepo = \<lparr>serviceURL = ''https://service.lisk.com''\<rparr>,
      dexMultisigPublicKeys = [], dexNumberOfSignatures = 0\<rparr>"

section \<open>Properties of the failover client\<close>

lemma tryWithFallback_all_fail:
  "all_fail requestFn urls w = Some w1 \<Longrightarrow>
   tryWithFallback requestFn (urls @ rest) (w, lg) =
     tryWithFallback requestFn rest (w1, lg @ map fallback_warning urls)"
proof (induction urls arbitrary: w lg)
  case Nil
  then show ?case by simp
next
  case (Cons u us)
  obtain out w' where r: "requestFn u w = (out, w')" by (cases "requestFn u w")
  show ?case
  proof (cases out)
    case (Inl e)
    with Cons.prems r have "all_fail requestFn us w' = Some w1" by simp
    from Cons.IH [OF this] r Inl show ?thesis by simp
  next
    case (Inr v)
    with Cons.prems r show ?thesis by simp
  qed
qed


lemma tryWithFallback_exhausted:
  "all_fail requestFn urls w = Some w1 \<Longrightarrow>
   tryWithFallback requestFn urls (w, lg) = (JNull, w1, lg @ map fallback_warning urls)"
  using tryWithFallback_all_fail [of requestFn urls w w1 "[]" lg] by simp

lemma tryWithFallback_first_success:
  "all_fail requestFn pre w = Some w1 \<Longrightarrow> requestFn f w1 = (Inr response, w2) \<Longrightarrow>
   tryWithFallback requestFn (pre @ f # rest) (w, lg) =
     (response, w2, lg @ map fallback_warning pre)"
  using tryWithFallback_all_fail [of requestFn pre w w1 "f # rest" lg] by simp

text \<open>
  C2. An axios request that succeeds resolves with a response object, which carries the
  body in \<open>data\<close>; the object is \<open>JObj kvs\<close>, whatever its body (a list of blocks, the
  empty string, \<open>null\<close>, no body at all). The primary request is rejected with \<open>err\<close>,
  the fallbacks \<open>pre\<close> before the k-th are all rejected, and the k-th fallback \<open>f\<close>
  resolves with the response \<open>JObj kvs\<close>. Then \<open>get\<close> and \<open>post\<close> return this response
  and raise no error, and they stop at \<open>f\<close>: the world and the log are those reached right
  after the request to \<open>f\<close> (one warning for the primary, one per failed fallback, none for
  \<open>f\<close>), whatever fallbacks \<open>rest\<close> follow, so none of them is requested.
\<close>

theorem kth_fallback_success_returns_response:
  assumes "axios (baseUrl c @ path) params w = (Inl err, w0)"
    and "fallbacks c = pre @ f # rest"
    and "all_fail (\<lambda>b. axios (b @ path) params) pre w0 = Some w1"
    and "axios (f @ path) params w1 = (Inr (JObj kvs), w2)"
  shows "client_get axios c path params (w, lg) =
           (Inr (JObj kvs), w2, lg @ [get_warning (baseUrl c)] @ map fallback_warning pre)
       \<and> client_post axios c path params (w, lg) =
           (Inr (JObj kvs), w2, lg @ [post_warning (baseUrl c)] @ map fallback_warning pre)"
proof -
  let ?req = "\<lambda>b. axios (b @ path) params"
  have t: "tryWithFallback ?req (fallbacks c) (w0, lg') =
             (JObj kvs, w2, lg' @ map fallback_warning pre)" for lg'
    using tryWithFallback_first_success [of ?req pre w0 w1 f "JObj kvs" w2 rest lg'] assms
    by simp
  show ?thesis
    using assms(1) t
    by (simp add: client_get_def client_post_def HttpGetRequestFn_def HttpPostRequestFn_def)
qed

theorem kth_fallback_success_witness:
  "traced (F2_resolves block100) (baseUrl three_fallbacks @ ''/blocks'') () []
     = (Inl unreachable, [''P/blocks''])
   \<and> fallbacks three_fallbacks = [''F1''] @ ''F2'' # [''F3'']
   \<and> all_fail (\<lambda>b. traced (F2_resolves block100) (b @ ''/blocks'') ()) [''F1''] [''P/blocks'']
        = Some [''P/blocks'', ''F1/blocks'']
   \<and> traced (F2_resolves block100) (''F2'' @ ''/blocks'') () [''P/blocks'', ''F1/blocks'']
        = (Inr block100, [''P/blocks'', ''F1/blocks'', ''F2/blocks''])
   \<and> client_get (traced (F2_resolves block100)) three_fallbacks ''/blocks'' () ([], [])
        = (Inr block100, [''P/blocks'', ''F1/blocks'', ''F2/blocks''],
           [get_warning ''P'', fallback_warning ''F1''])
   \<and> traced (F2_resolves empty_body) (''F2'' @ ''/blocks'') () [''P/blocks'', ''F1/blocks'']
        = (Inr empty_body, [''P/blocks'', ''F1/blocks'', ''F2/blocks''])
   \<and> js_get empty_body ''data'' = JStr []
   \<and> client_get (traced (F2_resolves empty_body)) three_fallbacks ''/blocks'' () ([], [])
        = (Inr empty_body, [''P/blocks'', ''F1/blocks'', ''F2/blocks''],
           [get_warning ''P'', fallback_warning ''F1''])"
proof -
  have 1: "traced (F2_resolves v) (baseUrl three_fallbacks @ ''/blocks'') () []
             = (Inl unreachable, [''P/blocks''])" for v
    by (simp add: traced_def F2_resolves_def three_fallbacks_def)
  have 2: "fallbacks three_fallbacks = [''F1''] @ ''F2'' # [''F3'']"
    by (simp add: three_fallbacks_def)
  have 3: "all_fail (\<lambda>b. traced (F2_resolves v) (b @ ''/blocks'') ()) [''F1''] [''P/blocks'']
             = Some [''P/blocks'', ''F1/blocks'']" for v
    by (simp add: traced_def F2_resolves_def)
  have 4: "traced (F2_resolves v) (''F2'' @ ''/blocks'') () [''P/blocks'', ''F1/blocks'']
             = (Inr v, [''P/blocks'', ''F1/blocks'', ''F2/blocks''])" for v
    by (simp add: traced_def F2_resolves_def)
  have b: "block100 = JObj [(''status'', JNum 200),
                            (''data'', JObj [(''data'', JArr [JObj [(''height'', JNum 100)]])])]"
    by (simp add: block100_def)
  have e: "empty_body = JObj [(''status'', JNum 200), (''data'', JStr [])]"
    by (simp add: empty_body_def)
  have d: "js_get empty_body ''data'' = JStr []"
    by (simp add: e)
  have b4: "traced (F2_resolves block100) (''F2'' @ ''/blocks'') () [''P/blocks'', ''F1/blocks'']
             = (Inr (JObj [(''status'', JNum 200),
                           (''data'', JObj [(''data'', JArr [JObj [(''height'', JNum 100)]])])]),
                [''P/blocks'', ''F1/blocks'', ''F2/blocks''])"
    using 4 [of block100] by (simp only: b)
  have e4: "traced (F2_resolves empty_body) (''F2'' @ ''/blocks'') () [''P/blocks'', ''F1/blocks'']
             = (Inr (JObj [(''status'', JNum 200), (''data'', JStr [])]),
                [''P/blocks'', ''F1/blocks'', ''F2/blocks''])"
    using 4 [of empty_body] by (simp only: e)
  from kth_fallback_success_returns_response [where axios = "traced (F2_resolves block100)"
      and c = three_fallbacks and path = "''/blocks''" and params = "()" and w = "[]"
      and pre = "[''F1'']" and f = "''F2''" and rest = "[''F3'']" and lg = "[]"
      and kvs = "[(''status'', JNum 200),
                  (''data'', JObj [(''data'', JArr [JObj [(''height'', JNum 100)]])])]",
      OF 1 2 3 b4]
  have g1: "client_get (traced (F2_resolves block100)) three_fallbacks ''/blocks'' () ([], [])
          = (Inr block100, [''P/blocks'', ''F1/blocks'', ''F2/blocks''],
             [get_warning ''P'', fallback_warning ''F1''])"
    by (simp add: three_fallbacks_def b)
  from kth_fallback_success_returns_response [where axios = "traced (F2_resolves empty_body)"
      and c = three_fallbacks and path = "''/blocks''" and params = "()" and w = "[]"
      and pre = "[''F1'']" and f = "''F2''" and rest = "[''F3'']" and lg = "[]"
      and kvs = "[(''status'', JNum 200), (''data'', JStr [])]",
      OF 1 2 3 e4]
  have g2: "client_get (traced (F2_resolves empty_body)) three_fallbacks ''/blocks'' () ([], [])
          = (Inr empty_body, [''P/blocks'', ''F1/blocks'', ''F2/blocks''],
             [get_warning ''P'', fallback_warning ''F1''])"
    by (simp add: three_fallbacks_def e)
  show ?thesis
    by (intro conjI 1 2 3 4 d g1 g2)
qed

text \<open>
  C3. For every fallback list, the empty one included: when the primary request is
  rejected with \<open>err\<close> and the request to every fallback, tried in order, is rejected
  too, \<open>get\<close> and \<open>post\<close> raise exactly \<open>err\<close>, the primary's error, after one
  warning for the primary and one for each fallback.
\<close>

theorem all_fallbacks_fail_raises_primary_error:
  assumes "axios (baseUrl c @ path) params w = (Inl err, w0)"
    and "all_fail (\<lambda>b. axios (b @ path) params) (fallbacks c) w0 = Some w1"
  shows "client_get axios c path params (w, lg) =
           (Inl err, w1, lg @ [get_warning (baseUrl c)] @ map fallback_warning (fallbacks c))
       \<and> client_post axios c path params (w, lg) =
           (Inl err, w1, lg @ [post_warning (baseUrl c)] @ map fallback_warning (fallbacks c))"
proof -
  let ?req = "\<lambda>b. axios (b @ path) params"
  have t: "tryWithFallback ?req (fallbacks c) (w0, lg') =
             (JNull, w1, lg' @ map fallback_warning (fallbacks c))" for lg'
    using tryWithFallback_exhausted [of ?req "fallbacks c" w0 w1 lg'] assms(2) by simp
  show ?thesis
    using assms(1) t
    by (simp add: client_get_def client_post_def HttpGetRequestFn_def HttpPostRequestFn_def)
qed

theorem all_fallbacks_fail_witness:
  "traced all_down (baseUrl three_fallbacks @ ''/blocks'') () []
     = (Inl (HttpError ''timeout'' None), [''P/blocks''])
   \<and> all_fail (\<lambda>b. traced all_down (b @ ''/blocks'') ()) (fallbacks three_fallbacks) [''P/blocks'']
        = Some [''P/blocks'', ''F1/blocks'', ''F2/blocks'', ''F3/blocks'']
   \<and> fst (client_get (traced all_down) three_fallbacks ''/blocks'' () ([], []))
        = Inl (HttpError ''timeout'' None)
   \<and> fst (client_post (traced all_down) \<lparr>baseUrl = ''P'', fallbacks = []\<rparr> ''/blocks'' () ([], []))
        = Inl (HttpError ''timeout'' None)"
proof -
  have 1: "traced all_down (baseUrl three_fallbacks @ ''/blocks'') () []
             = (Inl (HttpError ''timeout'' None), [''P/blocks''])"
    by (simp add: traced_def all_down_def three_fallbacks_def)
  have 2: "all_fail (\<lambda>b. traced all_down (b @ ''/blocks'') ()) (fallbacks three_fallbacks)
             [''P/blocks''] = Some [''P/blocks'', ''F1/blocks'', ''F2/blocks'', ''F3/blocks'']"
    by (simp add: traced_def all_down_def three_fallbacks_def)
  have 3: "traced all_down (baseUrl \<lparr>baseUrl = ''P'', fallbacks = []\<rparr> @ ''/blocks'') () []
             = (Inl (HttpError ''timeout'' None), [''P/blocks''])"
    by (simp add: traced_def all_down_def)
  have 4: "all_fail (\<lambda>b. traced all_down (b @ ''/blocks'') ())
             (fallbacks \<lparr>baseUrl = ''P'', fallbacks = []\<rparr>) [''P/blocks''] = Some [''P/blocks'']"
    by simp
  from all_fallbacks_fail_raises_primary_error [where axios = "traced all_down"
      and c = three_fallbacks and path = "''/blocks''" and params = "()" and w = "[]"
      and lg = "[]", OF 1 2]
  have a: "fst (client_get (traced all_down) three_fallbacks ''/blocks'' () ([], []))
             = Inl (HttpError ''timeout'' None)"
    by simp
  from all_fallbacks_fail_raises_primary_error [where axios = "traced all_down"
      and c = "\<lparr>baseUrl = ''P'', fallbacks = []\<rparr>" and path = "''/blocks''" and params = "()"
      and w = "[]" and lg = "[]", OF 3 4]
  have b: "fst (client_post (traced all_down) \<lparr>baseUrl = ''P'', fallbacks = []\<rparr> ''/blocks'' ()
             ([], [])) = Inl (HttpError ''timeout'' None)"
    by simp
  from 1 2 a b show ?thesis by blast
qed


section \<open>Properties of the query repository\<close>

lemma getBlocks_data:
  "axiosClient_get (serviceURL r @ Blocks_path) params = Inr response \<Longrightarrow>
   getBlocks axiosClient_get r params = Inr (data (data response))"
  by (simp add: getBlocks_def repo_get_def)

lemma getTransactions_data:
  "axiosClient_get (serviceURL r @ Transactions_path) params = Inr response \<Longrightarrow>
   getTransactions axiosClient_get r params = Inr (data (data response))"
  by (simp add: getTransactions_def repo_get_def)

lemma strip_boundary_block:
  assumes "sorted_wrt (<) (map height (b # bs))"
    and "\<forall>x \<in> set (b # bs). in_closed_interval lo hi (height x)"
  shows "\<forall>x \<in> set (if Some (height b) = lo then bs else b # bs).
           Some (height x) \<noteq> lo \<and> in_left_open_interval lo hi (height x)"
proof (cases lo)
  case None
  with assms(2) show ?thesis
    by (auto simp: in_closed_interval_def in_left_open_interval_def)
next
  case (Some a)
  from assms(1) have above: "\<forall>x \<in> set bs. height b < height x" by simp
  from assms(2) Some have "a \<le> height b"
    by (simp add: in_closed_interval_def)
  with above have rest: "\<forall>x \<in> set bs. a < height x" by fastforce
  show ?thesis
  proof (cases "height b = a")
    case True
    with Some rest assms(2) show ?thesis
      by (auto simp: in_closed_interval_def in_left_open_interval_def)
  next
    case False
    with \<open>a \<le> height b\<close> have "a < height b" by simp
    with Some rest assms(2) False show ?thesis
      by (auto simp: in_closed_interval_def in_left_open_interval_def)
  qed
qed

text \<open>
  C4. Suppose the index answers the query built by \<open>getBlocksBetweenHeights\<close> with the
  list \<open>blocks\<close>, strictly ascending by height (sorted, heights unique) and inside the
  inclusive interval \<open>fromHeight:toHeight\<close>, a missing bound leaving its side open. Then
  the call returns a list in which no block has the height \<open>fromHeight\<close>, every block has
  its height in \<open>(fromHeight, toHeight]\<close>, and the heights are strictly ascending. The
  query holds the interval \<open>from:to\<close> under the key \<open>height\<close>, each bound in decimal and
  the empty string for a missing bound, sorted by \<open>height:asc\<close>, with the given limit.
\<close>

theorem getBlocksBetweenHeights_excludes_fromHeight:
  assumes "axiosClient_get (serviceURL r @ Blocks_path)
             (blocksBetweenHeightsFilterParams fromHeight toHeight limit) = Inr response"
    and "data (data response) = blocks"
    and "sorted_wrt (<) (map height blocks)"
    and "\<forall>b \<in> set blocks. in_closed_interval fromHeight toHeight (height b)"
  shows "\<exists>result.
           getBlocksBetweenHeights axiosClient_get r fromHeight toHeight limit = Inr result
         \<and> (\<forall>b \<in> set result.
               Some (height b) \<noteq> fromHeight
             \<and> in_left_open_interval fromHeight toHeight (height b))
         \<and> sorted_wrt (<) (map height result)
         \<and> blocksBetweenHeightsFilterParams fromHeight toHeight limit =
             [(''height'',
               JStr ((case fromHeight of None \<Rightarrow> [] | Some h \<Rightarrow> js_toString h) @ '':'' @
                     (case toHeight of None \<Rightarrow> [] | Some h \<Rightarrow> js_toString h))),
              (''sort'', JStr ''height:asc''),
              (''limit'', js_num limit)]"
proof -
  have g: "getBlocks axiosClient_get r (blocksBetweenHeightsFilterParams fromHeight toHeight limit)
             = Inr blocks"
    using getBlocks_data [where axiosClient_get = axiosClient_get, OF assms(1)] assms(2) by simp
  have f: "blocksBetweenHeightsFilterParams fromHeight toHeight limit =
             [(''height'',
               JStr ((case fromHeight of None \<Rightarrow> [] | Some h \<Rightarrow> js_toString h) @ '':'' @
                     (case toHeight of None \<Rightarrow> [] | Some h \<Rightarrow> js_toString h))),
              (''sort'', JStr ''height:asc''),
              (''limit'', js_num limit)]"
    by (simp add: blocksBetweenHeightsFilterParams_def heightString_def Blocks_filter_height_def
        Blocks_filter_sort_def Blocks_filter_limit_def Blocks_sortBy_heightAsc_def)
  show ?thesis
  proof (cases blocks)
    case Nil
    with g have "getBlocksBetweenHeights axiosClient_get r fromHeight toHeight limit = Inr []"
      by (simp add: getBlocksBetweenHeights_def)
    then show ?thesis
      by (intro exI [of _ "[]"] conjI f) simp_all
  next
    case (Cons b bs)
    let ?result = "if Some (height b) = fromHeight then bs else b # bs"
    from g Cons
    have r: "getBlocksBetweenHeights axiosClient_get r fromHeight toHeight limit = Inr ?result"
      by (simp add: getBlocksBetweenHeights_def)
    from assms(3) Cons have srt: "sorted_wrt (<) (map height (b # bs))" by simp
    from assms(4) Cons
    have inside: "\<forall>x \<in> set (b # bs). in_closed_interval fromHeight toHeight (height x)"
      by simp
    have p: "\<forall>x \<in> set ?result.
               Some (height x) \<noteq> fromHeight \<and> in_left_open_interval fromHeight toHeight (height x)"
      by (rule strip_boundary_block [OF srt inside])
    from srt have s: "sorted_wrt (<) (map height ?result)"
      by (cases "Some (height b) = fromHeight") simp_all
    show ?thesis
      by (intro exI [of _ ?result] conjI r p s f)
  qed
qed

lemma js_toString_examples:
  "js_toString 100 = ''100''" "js_toString 102 = ''102''" "js_toString 5 = ''5''"
  by (simp_all add: js_toString_def decimal.simps digit_def)

theorem getBlocksBetweenHeights_witness:
  "\<exists>result.
     getBlocksBetweenHeights block_index main_repo (Some 100) (Some 102) (Some 10) = Inr result
   \<and> result = [blk 101, blk 102]
   \<and> (\<forall>b \<in> set result. Some (height b) \<noteq> Some 100
                          \<and> in_left_open_interval (Some 100) (Some 102) (height b))
   \<and> blocksBetweenHeightsFilterParams (Some 100) (Some 102) (Some 10) =
        [(''height'', JStr ''100:102''), (''sort'', JStr ''height:asc''), (''limit'', JNum 10)]"
proof -
  have f: "blocksBetweenHeightsFilterParams (Some 100) (Some 102) (Some 10) =
             [(''height'', JStr ''100:102''), (''sort'', JStr ''height:asc''), (''limit'', JNum 10)]"
    by (simp add: blocksBetweenHeightsFilterParams_def heightString_def Blocks_filter_height_def
        Blocks_filter_sort_def Blocks_filter_limit_def Blocks_sortBy_heightAsc_def js_num_def
        js_toString_examples)
  have 1: "block_index (serviceURL main_repo @ Blocks_path)
             (blocksBetweenHeightsFilterParams (Some 100) (Some 102) (Some 10))
           = Inr \<lparr>data = \<lparr>data = [blk 100, blk 101, blk 102]\<rparr>\<rparr>"
    unfolding f by (simp add: block_index_def main_repo_def Blocks_path_def)
  have 2: "data (data \<lparr>data = \<lparr>data = [blk 100, blk 101, blk 102]\<rparr>\<rparr>) = [blk 100, blk 101, blk 102]"
    by simp
  have 3: "sorted_wrt (<) (map height [blk 100, blk 101, blk 102])"
    by (simp add: blk_def)
  have 4: "\<forall>b \<in> set [blk 100, blk 101, blk 102].
             in_closed_interval (Some 100) (Some 102) (height b)"
    by (simp add: blk_def in_closed_interval_def)
  have 5: "getBlocksBetweenHeights block_index main_repo (Some 100) (Some 102) (Some 10)
             = Inr [blk 101, blk 102]"
    using getBlocks_data [where axiosClient_get = block_index, OF 1]
    by (simp add: getBlocksBetweenHeights_def blk_def)
  from getBlocksBetweenHeights_excludes_fromHeight [where axiosClient_get = block_index, OF 1 2 3 4]
  obtain result where
    r: "getBlocksBetweenHeights block_index main_repo (Some 100) (Some 102) (Some 10) = Inr result"
    and p: "\<forall>b \<in> set result. Some (height b) \<noteq> Some 100
                              \<and> in_left_open_interval (Some 100) (Some 102) (height b)"
    by blast
  from r 5 have e: "result = [blk 101, blk 102]" by simp
  from r e p f show ?thesis by blast
qed


lemma outboundTransactionFilterParams_eq:
  "outboundTransactionFilterParams addr t limit order =
     (if order = None \<or> order = Some ''asc''
      then [(''senderAddress'', JStr addr), (''limit'', js_num limit),
            (''moduleCommand'', JStr ''token:transfer''),
            (''sort'', JStr ''timestamp:asc''),
            (''timestamp'', JStr (js_toString t @ '':''))]
      else [(''senderAddress'', JStr addr), (''limit'', js_num limit),
            (''moduleCommand'', JStr ''token:transfer''),
            (''sort'', JStr ''timestamp:desc''),
            (''timestamp'', JStr (''0:'' @ js_toString t))])"
proof (cases order)
  case None
  then show ?thesis
    by (simp add: outboundTransactionFilterParams_def Transactions_filter_senderAddress_def
        Transactions_filter_limit_def Transactions_filter_moduleCommand_def
        Transactions_filter_sort_def Transactions_filter_timestamp_def
        Transactions_sortBy_timestampAsc_def)
next
  case (Some v)
  then show ?thesis
    by (simp add: outboundTransactionFilterParams_def Transactions_filter_senderAddress_def
        Transactions_filter_limit_def Transactions_filter_moduleCommand_def
        Transactions_filter_sort_def Transactions_filter_timestamp_def
        Transactions_sortBy_timestampAsc_def Transactions_sortBy_timestampDesc_def)
qed

subsection \<open>Reading the query back\<close>

lemma digit_value_digit: "d < 10 \<Longrightarrow> digit_value (digit d) = Some d"
proof -
  assume "d < 10"
  then consider "d = 0" | "d = 1" | "d = 2" | "d = 3" | "d = 4" | "d = 5" | "d = 6" | "d = 7"
    | "d = 8" | "d = 9"
    by atomize_elim arith
  then show ?thesis
    by cases (simp_all add: digit_def digit_value_def)
qed

lemma digit_value_colon_minus:
  "digit_value CHR '':'' = None" "digit_value CHR ''-'' = None"
  by (simp_all add: digit_value_def)

lemma parse_digits_snoc:
  "parse_digits acc (cs @ [c]) =
     (case parse_digits acc cs of
        None \<Rightarrow> None
      | Some m \<Rightarrow> (case digit_value c of None \<Rightarrow> None | Some d \<Rightarrow> Some (10 * m + d)))"
  by (induction cs arbitrary: acc) (auto split: option.splits)

lemma parse_digits_decimal: "parse_digits 0 (decimal n) = Some n"
proof (induction n rule: decimal.induct)
  case (1 n)
  show ?case
  proof (cases "10 \<le> n")
    case True
    then have "decimal n = decimal (n div 10) @ [digit (n mod 10)]"
      by (subst decimal.simps) simp
    with 1 [OF True] show ?thesis
      by (simp add: parse_digits_snoc digit_value_digit)
  next
    case False
    then have "decimal n = [digit n]"
      by (subst decimal.simps) simp
    with False show ?thesis
      by (simp add: digit_value_digit)
  qed
qed

lemma decimal_digits: "c \<in> set (decimal n) \<Longrightarrow> digit_value c \<noteq> None"
proof (induction n rule: decimal.induct)
  case (1 n)
  show ?case
  proof (cases "10 \<le> n")
    case True
    then have "decimal n = decimal (n div 10) @ [digit (n mod 10)]"
      by (subst decimal.simps) simp
    with 1 True show ?thesis
      by (auto simp: digit_value_digit)
  next
    case False
    then have "decimal n = [digit n]"
      by (subst decimal.simps) simp
    with 1(2) False show ?thesis
      by (auto simp: digit_value_digit)
  qed
qed

lemma decimal_nonempty: "decimal n \<noteq> []"
  by (subst decimal.simps) simp

lemma js_toString_no_colon: "c \<in> set (js_toString i) \<Longrightarrow> c \<noteq> CHR '':''"
proof -
  have "CHR '':'' \<notin> set (decimal n)" for n
    using decimal_digits [of "CHR '':''" n] digit_value_colon_minus(1) by auto
  then show "c \<in> set (js_toString i) \<Longrightarrow> c \<noteq> CHR '':''"
    by (auto simp: js_toString_def split: if_splits)
qed

lemma parse_int_js_toString: "parse_int (js_toString i) = Some i"
proof (cases "0 \<le> i")
  case True
  obtain c cs where d: "decimal (nat i) = c # cs"
    using decimal_nonempty [of "nat i"] by (cases "decimal (nat i)") auto
  then have "c \<in> set (decimal (nat i))" by simp
  then have "c \<noteq> CHR ''-''"
    using decimal_digits digit_value_colon_minus(2) by metis
  with True d parse_digits_decimal [of "nat i"] show ?thesis
    by (simp add: parse_int_def js_toString_def)
next
  case False
  with decimal_nonempty [of "nat (- i)"] parse_digits_decimal [of "nat (- i)"] show ?thesis
    by (simp add: parse_int_def js_toString_def)
qed

lemma js_toString_nonempty: "js_toString i \<noteq> []"
  by (simp add: js_toString_def decimal_nonempty)

lemma parse_interval_from: "parse_interval (js_toString t @ '':'') = Some (Some t, None)"
proof -
  have "takeWhile (\<lambda>c. c \<noteq> CHR '':'') (js_toString t @ '':'') = js_toString t"
    using js_toString_no_colon [of _ t] by simp
  moreover have "dropWhile (\<lambda>c. c \<noteq> CHR '':'') (js_toString t @ '':'') = '':''"
    using js_toString_no_colon [of _ t] by simp
  ultimately show ?thesis
    by (simp add: parse_interval_def parse_bound_def parse_int_js_toString js_toString_nonempty)
qed

lemma parse_interval_upto: "parse_interval (''0:'' @ js_toString t) = Some (Some 0, Some t)"
proof -
  have "parse_int ''0'' = Some 0"
    by (simp add: parse_int_def digit_value_def)
  then show ?thesis
    by (simp add: parse_interval_def parse_bound_def parse_int_js_toString js_toString_nonempty)
qed


lemma query_reading:
  assumes "params = outboundTransactionFilterParams addr t limit order"
  shows "accepts params ''senderAddress'' v = (v = addr)"
    and "accepts params ''moduleCommand'' v = (v = ''token:transfer'')"
    and "page_size default_limit params = (case limit of None \<Rightarrow> default_limit | Some n \<Rightarrow> nat n)"
    and "order = None \<or> order = Some ''asc'' \<Longrightarrow>
           timestamp_interval params = Some (Some t, None) \<and> ascending params = Some True"
    and "\<not> (order = None \<or> order = Some ''asc'') \<Longrightarrow>
           timestamp_interval params = Some (Some 0, Some t) \<and> ascending params = Some False"
  unfolding assms outboundTransactionFilterParams_eq
  by (simp_all add: accepts_def sent_def page_size_def js_num_def timestamp_interval_def
      ascending_def parse_interval_from parse_interval_upto
      split: option.splits del: append.simps)

lemma getOutboundTransactions_page:
  "getOutboundTransactions (service_transactions (serviceURL r) default_limit db) r
     addr t limit order = Inr (outbound_page default_limit db addr t limit order)"
proof -
  define params where "params = outboundTransactionFilterParams addr t limit order"
  note q = query_reading [OF params_def]
  let ?svc = "service_transactions (serviceURL r) default_limit db"
  have "?svc (serviceURL r @ Transactions_path) params
          = Inr \<lparr>data = \<lparr>data = outbound_page default_limit db addr t limit order\<rparr>\<rparr>"
  proof (cases "order = None \<or> order = Some ''asc''")
    case True
    have op: "outbound_page default_limit db addr t limit order
                = take (case limit of None \<Rightarrow> default_limit | Some n \<Rightarrow> nat n)
                    (sort_key tx_block_timestamp
                      (filter (\<lambda>tx. tx_sender_address tx = addr
                                   \<and> tx_moduleCommand tx = ''token:transfer''
                                   \<and> in_closed_interval (Some t) None (tx_block_timestamp tx)) db))"
      by (simp only: outbound_page_def True if_True)
    from q(4) [OF True] show ?thesis
      by (simp add: service_transactions_def Transactions_path_def op q(1,2,3))
  next
    case False
    have op: "outbound_page default_limit db addr t limit order
                = take (case limit of None \<Rightarrow> default_limit | Some n \<Rightarrow> nat n)
                    (rev (sort_key tx_block_timestamp
                      (filter (\<lambda>tx. tx_sender_address tx = addr
                                   \<and> tx_moduleCommand tx = ''token:transfer''
                                   \<and> in_closed_interval (Some 0) (Some t) (tx_block_timestamp tx)) db)))"
      by (simp only: outbound_page_def False if_False)
    from q(5) [OF False] show ?thesis
      by (simp add: service_transactions_def Transactions_path_def op q(1,2,3))
  qed
  from getTransactions_data [where axiosClient_get = ?svc, OF this]
  show ?thesis
    by (simp add: getOutboundTransactions_def params_def)
qed

lemma page_properties:
  fixes db :: "'sig service_transaction list"
  defines "by_time P \<equiv> sort_key tx_block_timestamp (filter P db)"
  shows "set (take n (by_time P)) \<subseteq> set db"
    and "set (take n (rev (by_time P))) \<subseteq> set db"
    and "tx \<in> set (take n (by_time P)) \<Longrightarrow> P tx"
    and "tx \<in> set (take n (rev (by_time P))) \<Longrightarrow> P tx"
    and "sorted (map tx_block_timestamp (take n (by_time P)))"
    and "sorted (rev (map tx_block_timestamp (take n (rev (by_time P)))))"
proof -
  have s: "set (by_time P) = set (filter P db)"
    by (simp add: by_time_def)
  show "set (take n (by_time P)) \<subseteq> set db"
    using set_take_subset [of n "by_time P"] s by auto
  show "set (take n (rev (by_time P))) \<subseteq> set db"
    using set_take_subset [of n "rev (by_time P)"] s by auto
  show "tx \<in> set (take n (by_time P)) \<Longrightarrow> P tx"
    using set_take_subset [of n "by_time P"] s by auto
  show "tx \<in> set (take n (rev (by_time P))) \<Longrightarrow> P tx"
    using set_take_subset [of n "rev (by_time P)"] s by auto
  have srt: "sorted (map tx_block_timestamp (by_time P))"
    by (simp add: by_time_def)
  then show "sorted (map tx_block_timestamp (take n (by_time P)))"
    by (simp add: take_map [symmetric] sorted_wrt_take)
  have "rev (map tx_block_timestamp (take n (rev (by_time P))))
          = drop (length (by_time P) - n) (map tx_block_timestamp (by_time P))"
    by (simp add: rev_map rev_take drop_map)
  with srt show "sorted (rev (map tx_block_timestamp (take n (rev (by_time P)))))"
    by (simp add: sorted_wrt_drop)
qed

text \<open>
  C6. Let the service be the transaction index over any ledger \<open>db\<close>. For every sender
  address \<open>addr\<close>, every limit and every timestamp \<open>t\<close> of magnitude below \<open>10^21\<close>
  (the integers that a template literal renders in decimal, as \<open>js_toString\<close> does; a
  timestamp counts seconds), \<open>getOutboundTransactions\<close> returns a list of
  transactions of the ledger, all of them transfers (\<open>token:transfer\<close>) sent by \<open>addr\<close>.
  For the order \<open>'asc'\<close>, and when the order is omitted, they have timestamps at least
  \<open>t\<close> and come in ascending order of timestamp; for the order \<open>'desc'\<close> they have
  timestamps at most \<open>t\<close> and come in descending order. The query sent is:
  \<open>senderAddress = addr\<close>, the limit, \<open>moduleCommand = 'token:transfer'\<close>, and then
  \<open>sort = 'timestamp:asc'\<close> with \<open>timestamp = 't:'\<close>, or, for any given order other than
  \<open>'asc'\<close>, \<open>sort = 'timestamp:desc'\<close> with \<open>timestamp = '0:t'\<close>.
\<close>

theorem getOutboundTransactions_returns_only:
  fixes db :: "'sig service_transaction list"
  assumes "\<bar>t\<bar> < 10 ^ 21"
  shows "\<exists>txs.
           getOutboundTransactions (service_transactions (serviceURL r) default_limit db) r
             addr t limit order = Inr txs
         \<and> set txs \<subseteq> set db
         \<and> (\<forall>tx \<in> set txs. tx_sender_address tx = addr
                            \<and> tx_moduleCommand tx = ''token:transfer'')
         \<and> (order = None \<or> order = Some ''asc'' \<longrightarrow>
              (\<forall>tx \<in> set txs. t \<le> tx_block_timestamp tx)
              \<and> sorted (map tx_block_timestamp txs))
         \<and> (order = Some ''desc'' \<longrightarrow>
              (\<forall>tx \<in> set txs. tx_block_timestamp tx \<le> t)
              \<and> sorted (rev (map tx_block_timestamp txs)))
         \<and> outboundTransactionFilterParams addr t limit order =
             (if order = None \<or> order = Some ''asc''
              then [(''senderAddress'', JStr addr), (''limit'', js_num limit),
                    (''moduleCommand'', JStr ''token:transfer''),
                    (''sort'', JStr ''timestamp:asc''),
                    (''timestamp'', JStr (js_toString t @ '':''))]
              else [(''senderAddress'', JStr addr), (''limit'', js_num limit),
                    (''moduleCommand'', JStr ''token:transfer''),
                    (''sort'', JStr ''timestamp:desc''),
                    (''timestamp'', JStr (''0:'' @ js_toString t))])"
proof -
  let ?txs = "outbound_page default_limit db addr t limit order"
  let ?n = "case limit of None \<Rightarrow> default_limit | Some n \<Rightarrow> nat n"
  let ?P = "\<lambda>lo hi (tx :: 'sig service_transaction).
              tx_sender_address tx = addr \<and> tx_moduleCommand tx = ''token:transfer''
            \<and> in_closed_interval lo hi (tx_block_timestamp tx)"
  note g = getOutboundTransactions_page [of r default_limit db addr t limit order]
  show ?thesis
  proof (cases "order = None \<or> order = Some ''asc''")
    case True
    then have e: "?txs = take ?n (sort_key tx_block_timestamp (filter (?P (Some t) None) db))"
      by (simp only: outbound_page_def if_True)
    have sub: "set ?txs \<subseteq> set db"
      unfolding e by (rule page_properties(1))
    have inP: "?P (Some t) None tx" if "tx \<in> set ?txs" for tx
      using that unfolding e by (rule page_properties(3))
    have mem: "\<forall>tx \<in> set ?txs. tx_sender_address tx = addr
                                \<and> tx_moduleCommand tx = ''token:transfer''"
      using inP by blast
    have lo: "\<forall>tx \<in> set ?txs. t \<le> tx_block_timestamp tx"
      using inP by (simp add: in_closed_interval_def)
    have srt: "sorted (map tx_block_timestamp ?txs)"
      unfolding e by (rule page_properties(5))
    from True have d: "order \<noteq> Some ''desc''" by auto
    have a: "order = None \<or> order = Some ''asc'' \<longrightarrow>
              (\<forall>tx \<in> set ?txs. t \<le> tx_block_timestamp tx)
              \<and> sorted (map tx_block_timestamp ?txs)"
      using lo srt by (intro impI conjI)
    have b: "order = Some ''desc'' \<longrightarrow>
              (\<forall>tx \<in> set ?txs. tx_block_timestamp tx \<le> t)
              \<and> sorted (rev (map tx_block_timestamp ?txs))"
      using d by (intro impI) (erule notE)
    show ?thesis
      by (intro exI [of _ ?txs] conjI g sub mem a b outboundTransactionFilterParams_eq)
  next
    case False
    then have e: "?txs = take ?n (rev (sort_key tx_block_timestamp
                                         (filter (?P (Some 0) (Some t)) db)))"
      by (simp only: outbound_page_def if_False)
    have sub: "set ?txs \<subseteq> set db"
      unfolding e by (rule page_properties(2))
    have inP: "?P (Some 0) (Some t) tx" if "tx \<in> set ?txs" for tx
      using that unfolding e by (rule page_properties(4))
    have mem: "\<forall>tx \<in> set ?txs. tx_sender_address tx = addr
                                \<and> tx_moduleCommand tx = ''token:transfer''"
      using inP by blast
    have hi: "\<forall>tx \<in> set ?txs. tx_block_timestamp tx \<le> t"
      using inP by (simp add: in_closed_interval_def)
    have srt: "sorted (rev (map tx_block_timestamp ?txs))"
      unfolding e by (rule page_properties(6))
    have a: "order = None \<or> order = Some ''asc'' \<longrightarrow>
              (\<forall>tx \<in> set ?txs. t \<le> tx_block_timestamp tx)
              \<and> sorted (map tx_block_timestamp ?txs)"
      using False by (intro impI) (erule notE)
    have b: "order = Some ''desc'' \<longrightarrow>
              (\<forall>tx \<in> set ?txs. tx_block_timestamp tx \<le> t)
              \<and> sorted (rev (map tx_block_timestamp ?txs))"
      using hi srt by (intro impI conjI)
    show ?thesis
      by (intro exI [of _ ?txs] conjI g sub mem a b outboundTransactionFilterParams_eq)
  qed
qed

lemma outbound_page_examples:
  "outbound_page 10 ledger ''lsksender'' 5 (Some 3) None
     = [transfer ''lsksender'' 5, transfer ''lsksender'' 7]"
  "outbound_page 10 ledger ''lsksender'' 5 (Some 3) (Some ''desc'')
     = [transfer ''lsksender'' 5, transfer ''lsksender'' 2]"
  "outbound_page 10 ledger ''lsksender'' 0 (Some 1) (Some ''asc'') = [transfer ''lsksender'' 2]"
  by (simp_all add: outbound_page_def ledger_def transfer_def stake_def in_closed_interval_def)

theorem getOutboundTransactions_witness:
  "\<bar>5 :: int\<bar> < 10 ^ 21
   \<and> (\<exists>txs. getOutboundTransactions (service_transactions (serviceURL main_repo) 10 ledger)
             main_repo ''lsksender'' 5 (Some 3) None = Inr txs
          \<and> txs = [transfer ''lsksender'' 5, transfer ''lsksender'' 7]
          \<and> (\<forall>tx \<in> set txs. tx_sender_address tx = ''lsksender'' \<and> 5 \<le> tx_block_timestamp tx)
          \<and> sorted (map tx_block_timestamp txs))
   \<and> (\<exists>txs. getOutboundTransactions (service_transactions (serviceURL main_repo) 10 ledger)
             main_repo ''lsksender'' 5 (Some 3) (Some ''desc'') = Inr txs
          \<and> txs = [transfer ''lsksender'' 5, transfer ''lsksender'' 2]
          \<and> (\<forall>tx \<in> set txs. tx_sender_address tx = ''lsksender'' \<and> tx_block_timestamp tx \<le> 5)
          \<and> sorted (rev (map tx_block_timestamp txs)))"
proof -
  have small: "\<bar>5 :: int\<bar> < 10 ^ 21" by simp
  from getOutboundTransactions_returns_only [where t = 5 and r = main_repo
      and default_limit = 10 and db = ledger and addr = "''lsksender''" and limit = "Some 3"
      and order = None, OF small]
  obtain txs where
    g: "getOutboundTransactions (service_transactions (serviceURL main_repo) 10 ledger)
          main_repo ''lsksender'' 5 (Some 3) None = Inr txs"
    and m: "\<forall>tx \<in> set txs. tx_sender_address tx = ''lsksender''
                           \<and> tx_moduleCommand tx = ''token:transfer''"
    and a: "(\<forall>tx \<in> set txs. 5 \<le> tx_block_timestamp tx) \<and> sorted (map tx_block_timestamp txs)"
    by blast
  from g have e: "txs = [transfer ''lsksender'' 5, transfer ''lsksender'' 7]"
    by (simp add: getOutboundTransactions_page outbound_page_examples)
  from getOutboundTransactions_returns_only [where t = 5 and r = main_repo
      and default_limit = 10 and db = ledger and addr = "''lsksender''" and limit = "Some 3"
      and order = "Some ''desc''", OF small]
  obtain txs' where
    g': "getOutboundTransactions (service_transactions (serviceURL main_repo) 10 ledger)
          main_repo ''lsksender'' 5 (Some 3) (Some ''desc'') = Inr txs'"
    and m': "\<forall>tx \<in> set txs'. tx_sender_address tx = ''lsksender''
                            \<and> tx_moduleCommand tx = ''token:transfer''"
    and d': "(\<forall>tx \<in> set txs'. tx_block_timestamp tx \<le> 5)
             \<and> sorted (rev (map tx_block_timestamp txs'))"
    by blast
  from g' have e': "txs' = [transfer ''lsksender'' 5, transfer ''lsksender'' 2]"
    by (simp add: getOutboundTransactions_page outbound_page_examples)
  have 1: "\<exists>txs. getOutboundTransactions (service_transactions (serviceURL main_repo) 10 ledger)
             main_repo ''lsksender'' 5 (Some 3) None = Inr txs
          \<and> txs = [transfer ''lsksender'' 5, transfer ''lsksender'' 7]
          \<and> (\<forall>tx \<in> set txs. tx_sender_address tx = ''lsksender'' \<and> 5 \<le> tx_block_timestamp tx)
          \<and> sorted (map tx_block_timestamp txs)"
    using g e m a by (intro exI [of _ txs]) blast
  have 2: "\<exists>txs. getOutboundTransactions (service_transactions (serviceURL main_repo) 10 ledger)
             main_repo ''lsksender'' 5 (Some 3) (Some ''desc'') = Inr txs
          \<and> txs = [transfer ''lsksender'' 5, transfer ''lsksender'' 2]
          \<and> (\<forall>tx \<in> set txs. tx_sender_address tx = ''lsksender'' \<and> tx_block_timestamp tx \<le> 5)
          \<and> sorted (rev (map tx_block_timestamp txs))"
    using g' e' m' d' by (intro exI [of _ txs']) blast
  from small 1 2 show ?thesis by (intro conjI)
qed

section \<open>Properties of the adapter\<close>

lemma getAuth_examples:
  "getAuth auth_service \<lparr>serviceURL = ''https://service.lisk.com''\<rparr> ''lskdex'' = Inr (Some dex_account)"
  "getAuth auth_service \<lparr>serviceURL = ''https://service.lisk.com''\<rparr> ''lskplain'' = Inr (Some plain_account)"
  by (simp_all add: getAuth_def repo_get_def auth_service_def)

lemma dex_adapter_eq:
  "dex_adapter = \<lparr>adapter_alias = ''lisk_v4_dex_adapter'', dexWalletAddress = Some ''lskdex'',
      chainSymbol = ''lsk'', liskServiceRepo = \<lparr>serviceURL = ''https://service.lisk.com''\<rparr>\<rparr>"
  by (simp add: dex_adapter_def new_LiskV3DEXAdapter_def dex_config_def or_default_def
      new_LiskServiceRepository_def DEFAULT_MODULE_ALIAS_def DEFAULT_MAIN_NET_URL_def)

lemma Array_from_Set_example: "Array_from_Set ([''aa''] @ [''bb'', ''cc'']) = [''aa'', ''bb'', ''cc'']"
  by (simp add: Array_from_Set_def Set_add_def)

lemma load_example: "load example_env dex_adapter = Inr loaded_dex"
  by (simp add: load_def dex_adapter_eq example_env_def channel_ok_def or_default_def
      getAuth_examples dex_account_def Array_from_Set_example [simplified] loaded_dex_def
      LiskV3DEXAdapter.extend_def loaded_adapter.fields_def)

text \<open>
  C8. For an account that exists (the auth lookup yields a record): when
  \<open>numberOfSignatures\<close> is 0, \<open>getMultisigWalletMembers\<close> and
  \<open>getMinMultisigRequiredSignatures\<close> both raise the \<open>InvalidActionError\<close> named
  \<open>accountWasNotMultisigError\<close>; each of the two actions returns a value exactly when
  \<open>numberOfSignatures > 0\<close>, which is what \<open>isMultisigAccount\<close> tests.
\<close>

theorem non_multisig_account_is_rejected:
  assumes "getAuth (axios_get_auth ev) (liskServiceRepo a) walletAddress = Inr (Some accountAuth)"
  shows "(numberOfSignatures accountAuth = 0 \<longrightarrow>
            getMultisigWalletMembers ev a walletAddress
              = Inl (InvalidActionError accountWasNotMultisigError
                      (''Account with address '' @ walletAddress @ '' is not a multisig account'')
                      None)
          \<and> getMinMultisigRequiredSignatures ev a walletAddress
              = Inl (InvalidActionError accountWasNotMultisigError
                      (''Account with address '' @ walletAddress @ '' is not a multisig account'')
                      None))
       \<and> ((\<exists>members. getMultisigWalletMembers ev a walletAddress = Inr members)
            = (0 < numberOfSignatures accountAuth))
       \<and> ((\<exists>n. getMinMultisigRequiredSignatures ev a walletAddress = Inr n)
            = (0 < numberOfSignatures accountAuth))
       \<and> isMultisigAccount accountAuth = (0 < numberOfSignatures accountAuth)"
  using assms
  by (simp add: getMultisigWalletMembers_def getMinMultisigRequiredSignatures_def
      isMultisigAccount_def multisig_catch_def accountWasNotMultisig_def)

theorem non_multisig_account_witness:
  "getAuth (axios_get_auth example_env) (liskServiceRepo dex_adapter) ''lskplain''
     = Inr (Some plain_account)
   \<and> numberOfSignatures plain_account = 0
   \<and> getMultisigWalletMembers example_env dex_adapter ''lskplain''
       = Inl (InvalidActionError accountWasNotMultisigError
               ''Account with address lskplain is not a multisig account'' None)
   \<and> getMinMultisigRequiredSignatures example_env dex_adapter ''lskplain''
       = Inl (InvalidActionError accountWasNotMultisigError
               ''Account with address lskplain is not a multisig account'' None)"
proof -
  have 1: "getAuth (axios_get_auth example_env) (liskServiceRepo dex_adapter) ''lskplain''
             = Inr (Some plain_account)"
    by (simp add: example_env_def dex_adapter_eq getAuth_examples)
  have 2: "numberOfSignatures plain_account = 0"
    by (simp add: plain_account_def)
  from non_multisig_account_is_rejected [OF 1] 2
  have "getMultisigWalletMembers example_env dex_adapter ''lskplain''
       = Inl (InvalidActionError accountWasNotMultisigError
               ''Account with address lskplain is not a multisig account'' None)"
    and "getMinMultisigRequiredSignatures example_env dex_adapter ''lskplain''
       = Inl (InvalidActionError accountWasNotMultisigError
               ''Account with address lskplain is not a multisig account'' None)"
    by simp_all
  with 1 2 show ?thesis by blast
qed

text \<open>
  C1. The property: for an existing account with \<open>numberOfSignatures > 0\<close>,
  \<open>getMultisigWalletMembers\<close> returns one address per member key, the member keys being
  the mandatory keys and the optional keys without repetitions. The code does not have it.
  The wallet \<open>lskdex\<close> has the mandatory key \<open>aa\<close> and the optional keys \<open>bb\<close> and
  \<open>cc\<close>, and needs two signatures. \<open>load\<close> takes its member keys to be
  \<open>aa, bb, cc\<close>, and the address of \<open>aa\<close> is \<open>lskaa\<close>, but
  \<open>getMultisigWalletMembers\<close> returns the addresses of \<open>bb\<close> and \<open>cc\<close> only: it maps
  \<open>optionalKeys\<close> and never reads \<open>mandatoryKeys\<close>.
\<close>

theorem getMultisigWalletMembers_omits_mandatoryKeys:
  "getMultisigWalletMembers example_env dex_adapter ''lskdex'' = Inr [''lskbb'', ''lskcc'']
   \<and> load example_env dex_adapter = Inr loaded_dex
   \<and> dexMultisigPublicKeys loaded_dex = [''aa'', ''bb'', ''cc'']
   \<and> getBase32AddressFromPublicKey example_env (toBuffer example_env ''aa'') (chainSymbol dex_adapter)
       = ''lskaa''"
proof -
  have h: "Buffer_toString_hex (Buffer_from_hex ''aa'') = ''aa''"
          "Buffer_toString_hex (Buffer_from_hex ''bb'') = ''bb''"
          "Buffer_toString_hex (Buffer_from_hex ''cc'') = ''cc''"
    by (simp_all add: Buffer_toString_hex_def hex_value_def Let_def)
  have 1: "getMultisigWalletMembers example_env dex_adapter ''lskdex'' = Inr [''lskbb'', ''lskcc'']"
    by (simp add: getMultisigWalletMembers_def example_env_def dex_adapter_eq getAuth_examples
        isMultisigAccount_def dex_account_def toy_address_def h del: Buffer_from_hex.simps)
  have 2: "dexMultisigPublicKeys loaded_dex = [''aa'', ''bb'', ''cc'']"
    by (simp add: loaded_dex_def)
  have 3: "getBase32AddressFromPublicKey example_env (toBuffer example_env ''aa'')
             (chainSymbol dex_adapter) = ''lskaa''"
    by (simp add: example_env_def dex_adapter_eq toy_address_def h del: Buffer_from_hex.simps)
  from 1 load_example 2 3 show ?thesis by blast
qed



text \<open>
  C9. The id that \<open>transactionMapper\<close> (and the adapter's \<open>this.transactionMapper\<close>, which
  calls it) gives a transaction is \<open>computeDEXTransactionId\<close> of the sender's address and
  the nonce: two transactions with the same sender address and the same nonce get the same
  id, whatever their other fields and the id the service reported, and whatever member
  keys the adapter holds.
\<close>

theorem transaction_id_depends_only_on_sender_and_nonce:
  assumes "tx_sender_address t1 = tx_sender_address t2"
    and "tx_nonce t1 = tx_nonce t2"
    and "tx_sender_address u1 = tx_sender_address u2"
    and "tx_nonce u1 = tx_nonce u2"
  shows "dex_id (transactionMapper hash t1) = dex_id (transactionMapper hash t2)
       \<and> dex_id (transactionMapper hash t1)
           = computeDEXTransactionId hash (tx_sender_address t1) (tx_nonce t1)
       \<and> dex_id (adapter_transactionMapper ev a1 u1) = dex_id (adapter_transactionMapper ev a2 u2)
       \<and> dex_id (adapter_transactionMapper ev a1 u1)
           = computeDEXTransactionId (deterministic_hash ev) (tx_sender_address u1) (tx_nonce u1)"
  using assms by (simp add: transactionMapper_def adapter_transactionMapper_def)

theorem transaction_id_witness:
  "tx_sender_address upstream_a = tx_sender_address upstream_b
   \<and> tx_nonce upstream_a = tx_nonce upstream_b
   \<and> tx_id upstream_a \<noteq> tx_id upstream_b
   \<and> dex_id (adapter_transactionMapper example_env loaded_dex upstream_a) = ''lskdex-7''
   \<and> dex_id (adapter_transactionMapper example_env loaded_dex upstream_b) = ''lskdex-7''"
proof -
  have 1: "tx_sender_address upstream_a = tx_sender_address upstream_b"
    by (simp add: upstream_a_def upstream_b_def)
  have 2: "tx_nonce upstream_a = tx_nonce upstream_b"
    by (simp add: upstream_a_def upstream_b_def)
  have 3: "tx_id upstream_a \<noteq> tx_id upstream_b"
    by (simp add: upstream_a_def upstream_b_def)
  have 4: "computeDEXTransactionId (deterministic_hash example_env)
             (tx_sender_address upstream_a) (tx_nonce upstream_a) = ''lskdex-7''"
    by (simp add: computeDEXTransactionId_def example_env_def toy_hash_def upstream_a_def)
  from transaction_id_depends_only_on_sender_and_nonce [where ?t1.0 = sanitized_a
      and ?t2.0 = sanitized_a and hash = toy_hash and ev = example_env and ?a1.0 = loaded_dex
      and ?a2.0 = loaded_dex, OF refl refl 1 2]
  have e: "dex_id (adapter_transactionMapper example_env loaded_dex upstream_a)
             = dex_id (adapter_transactionMapper example_env loaded_dex upstream_b)"
    and f: "dex_id (adapter_transactionMapper example_env loaded_dex upstream_a)
             = computeDEXTransactionId (deterministic_hash example_env)
                 (tx_sender_address upstream_a) (tx_nonce upstream_a)"
    by blast+
  from f 4 have a: "dex_id (adapter_transactionMapper example_env loaded_dex upstream_a) = ''lskdex-7''"
    by (rule trans)
  from e [symmetric] a
  have b: "dex_id (adapter_transactionMapper example_env loaded_dex upstream_b) = ''lskdex-7''"
    by (rule trans)
  from 1 2 3 a b show ?thesis by blast
qed

lemma postTransaction_response:
  assumes "signedTxn ev a t = Inr stx"
    and "getBytes ev stx = Inr binaryTxn"
    and "axios_post ev (serviceURL (liskServiceRepo a) @ Transactions_path)
           [(''transaction'', JStr (Buffer_toString_hex binaryTxn))] = Inr response"
  shows "postTransaction ev a t =
           (if truthy (data response) \<and> truthy (js_get (data response) ''transactionID'')
            then Inr ()
            else Inl (InvalidActionError transactionBroadcastError
                   ''Error broadcasting transaction to the lisk network - Invalid transaction response''
                   (Some (Error ''Invalid transaction response''))))"
  using assms
  by (simp add: postTransaction_def broadcast_def repo_postTransaction_def repo_post_def
      broadcastError_def)

subsection \<open>Quorum selection and the signature vector\<close>


lemma load_members:
  assumes "load ev a0 = Inr a"
  shows "\<exists>accountAuth.
           dexMultisigPublicKeys a = Array_from_Set (mandatoryKeys accountAuth @ optionalKeys accountAuth)
         \<and> dexNumberOfSignatures a = numberOfSignatures accountAuth
         \<and> liskServiceRepo a = liskServiceRepo a0
         \<and> getAuth (axios_get_auth ev) (liskServiceRepo a0) (or_default (dexWalletAddress a0) [])
             = Inr (Some accountAuth)"
  using assms
  by (auto simp: load_def LiskV3DEXAdapter.extend_def loaded_adapter.fields_def
      split: if_splits sum.splits option.splits)

lemma fold_Set_add:
  "distinct acc \<Longrightarrow> distinct (fold Set_add xs acc) \<and> set (fold Set_add xs acc) = set acc \<union> set xs"
  by (induction xs arbitrary: acc) (auto simp: Set_add_def)

lemma distinct_Array_from_Set: "distinct (Array_from_Set xs)"
  using fold_Set_add [of "[]" xs] by (simp add: Array_from_Set_def)

lemma set_Array_from_Set: "set (Array_from_Set xs) = set xs"
  using fold_Set_add [of "[]" xs] by (simp add: Array_from_Set_def)

text \<open>
  The member keys are the given keys without repetitions, each at the place of its first
  occurrence.
\<close>

lemma remdups_drop_repeated:
  "x \<in> set ys \<Longrightarrow> remdups (xs @ x # ys) = remdups (xs @ ys)"
  by (induction xs) auto

lemma fold_Set_add_first_seen:
  "fold Set_add xs acc = rev (remdups (rev (acc @ xs)))" if "distinct acc"
  using that
proof (induction xs arbitrary: acc)
  case Nil
  then show ?case by (simp add: distinct_remdups_id)
next
  case (Cons x xs)
  show ?case
  proof (cases "x \<in> set acc")
    case True
    with Cons show ?thesis
      by (simp add: Set_add_def remdups_drop_repeated)
  next
    case False
    with Cons.prems have "distinct (acc @ [x])" by simp
    from Cons.IH [OF this] False show ?thesis
      by (simp add: Set_add_def)
  qed
qed

lemma Array_from_Set_first_seen: "Array_from_Set xs = rev (remdups (rev xs))"
  using fold_Set_add_first_seen [of "[]" xs] by (simp add: Array_from_Set_def)

lemma fold_update_find:
  "distinct (map publicKey ps) \<Longrightarrow>
   fold (\<lambda>p m. m(publicKey p \<mapsto> p)) ps m k =
     (case find (\<lambda>p. publicKey p = k) ps of Some p \<Rightarrow> Some p | None \<Rightarrow> m k)"
proof (induction ps arbitrary: m)
  case Nil
  then show ?case by simp
next
  case (Cons p ps)
  from Cons.prems have d: "distinct (map publicKey ps)" and n: "publicKey p \<notin> publicKey ` set ps"
    by simp_all
  from n have "find (\<lambda>q. publicKey q = publicKey p) ps = None"
    by (auto simp: find_None_iff image_iff)
  with Cons.IH [OF d, of "m(publicKey p \<mapsto> p)"] show ?case
    by (cases "publicKey p = k") (auto split: option.splits)
qed

lemma dom_fold_update:
  "dom (fold (\<lambda>p m. m(publicKey p \<mapsto> p)) ps m) = dom m \<union> publicKey ` set ps"
  by (induction ps arbitrary: m) auto

lemma publicKeySignatures_find:
  "distinct (map publicKey ps) \<Longrightarrow>
   publicKeySignatures ps k = find (\<lambda>p. publicKey p = k) ps"
  by (simp add: publicKeySignatures_def fold_update_find split: option.splits)

lemma dom_publicKeySignatures: "dom (publicKeySignatures ps) = publicKey ` set ps"
  by (simp add: publicKeySignatures_def dom_fold_update)

lemma selectedSignatures_Cons:
  "1 \<le> dexNumberOfSignatures a \<Longrightarrow>
   selectedSignatures ev a (p # others) =
     p # take (nat (dexNumberOfSignatures a - 1)) (shuffle ev others)"
  by (simp add: selectedSignatures_def slice0_def)

text \<open>
  A hex string that starts with two hexadecimal digits decodes to at least one byte.
\<close>

lemma Buffer_from_hex_nonempty:
  "hex_value c \<noteq> None \<Longrightarrow> hex_value d \<noteq> None \<Longrightarrow> Buffer_from_hex (c # d # rest) \<noteq> []"
  by auto

lemma signedTxn_signatures:
  "signedTxn ev a t = Inr stx \<Longrightarrow> stx_signatures stx = assembledSignatures ev a (signatures t)"
  by (auto simp: signedTxn_def Let_def split: sum.splits)




lemma assembledSignatures_nth:
  assumes "distinct (map publicKey (selectedSignatures ev a sigs))"
    and "i < length (dexMultisigPublicKeys a)"
  shows "assembledSignatures ev a sigs ! i =
           (case find (\<lambda>p. publicKey p = dexMultisigPublicKeys a ! i) (selectedSignatures ev a sigs) of
              Some p \<Rightarrow> Buffer_from_hex (signature p)
            | None \<Rightarrow> [])"
  using assms
  by (simp add: assembledSignatures_def publicKeySignatures_find split: option.splits)

lemma count_nonempty_le:
  assumes "distinct (dexMultisigPublicKeys a)"
  shows "length (filter (\<lambda>s. s \<noteq> []) (assembledSignatures ev a sigs))
           \<le> length (selectedSignatures ev a sigs)"
proof -
  let ?sel = "selectedSignatures ev a sigs"
  let ?M = "dexMultisigPublicKeys a"
  let ?f = "\<lambda>k. Buffer_from_hex (case publicKeySignatures ?sel k of
                                     Some p \<Rightarrow> signature p | None \<Rightarrow> [])"
  have "length (filter (\<lambda>s. s \<noteq> []) (assembledSignatures ev a sigs))
          = length (filter (\<lambda>k. ?f k \<noteq> []) ?M)"
    by (simp add: assembledSignatures_def filter_map comp_def)
  also have "\<dots> = card ({k. ?f k \<noteq> []} \<inter> set ?M)"
    by (rule distinct_length_filter [OF assms])
  also have "\<dots> \<le> card (publicKey ` set ?sel)"
  proof (rule card_mono)
    show "finite (publicKey ` set ?sel)" by simp
    have "{k. ?f k \<noteq> []} \<subseteq> dom (publicKeySignatures ?sel)"
      by (auto split: option.splits)
    then show "{k. ?f k \<noteq> []} \<inter> set ?M \<subseteq> publicKey ` set ?sel"
      by (auto simp: dom_publicKeySignatures)
  qed
  also have "\<dots> \<le> length ?sel"
    by (rule order_trans [OF card_image_le card_length]) simp
  finally show ?thesis .
qed

lemma count_nonempty_eq:
  assumes "distinct (dexMultisigPublicKeys a)"
    and "distinct (map publicKey (selectedSignatures ev a sigs))"
    and "publicKey ` set (selectedSignatures ev a sigs) \<subseteq> set (dexMultisigPublicKeys a)"
    and "\<forall>p \<in> set (selectedSignatures ev a sigs). Buffer_from_hex (signature p) \<noteq> []"
  shows "length (filter (\<lambda>s. s \<noteq> []) (assembledSignatures ev a sigs))
           = length (selectedSignatures ev a sigs)"
proof -
  let ?sel = "selectedSignatures ev a sigs"
  let ?M = "dexMultisigPublicKeys a"
  let ?f = "\<lambda>k. Buffer_from_hex (case publicKeySignatures ?sel k of
                                     Some p \<Rightarrow> signature p | None \<Rightarrow> [])"
  have dom: "{k. ?f k \<noteq> []} = publicKey ` set ?sel"
  proof
    have "{k. ?f k \<noteq> []} \<subseteq> dom (publicKeySignatures ?sel)"
      by (auto split: option.splits)
    then show "{k. ?f k \<noteq> []} \<subseteq> publicKey ` set ?sel"
      by (simp add: dom_publicKeySignatures)
  next
    show "publicKey ` set ?sel \<subseteq> {k. ?f k \<noteq> []}"
    proof
      fix k assume "k \<in> publicKey ` set ?sel"
      then have "k \<in> dom (publicKeySignatures ?sel)"
        by (simp add: dom_publicKeySignatures)
      then obtain p where p: "publicKeySignatures ?sel k = Some p" by blast
      with assms(2) have "find (\<lambda>q. publicKey q = k) ?sel = Some p"
        by (simp add: publicKeySignatures_find)
      then have "p \<in> set ?sel"
        by (auto simp: find_Some_iff)
      with assms(4) p show "k \<in> {k. ?f k \<noteq> []}" by simp
    qed
  qed
  have "length (filter (\<lambda>s. s \<noteq> []) (assembledSignatures ev a sigs))
          = length (filter (\<lambda>k. ?f k \<noteq> []) ?M)"
    by (simp add: assembledSignatures_def filter_map comp_def)
  also have "\<dots> = card ({k. ?f k \<noteq> []} \<inter> set ?M)"
    by (rule distinct_length_filter [OF assms(1)])
  also have "\<dots> = card (publicKey ` set ?sel)"
    using assms(3) by (simp add: dom Int_absorb2)
  also have "\<dots> = length ?sel"
    using assms(2) by (metis distinct_card length_map set_map)
  finally show ?thesis .
qed

lemma selected_distinct:
  assumes "1 \<le> dexNumberOfSignatures a"
    and "distinct (map publicKey sigs)"
    and "mset (shuffle ev (tl sigs)) = mset (tl sigs)"
  shows "distinct (map publicKey (selectedSignatures ev a sigs))
       \<and> set (selectedSignatures ev a sigs) \<subseteq> set sigs"
proof (cases sigs)
  case Nil
  then show ?thesis by (simp add: selectedSignatures_def)
next
  case (Cons p others)
  let ?sh = "shuffle ev others"
  let ?n = "nat (dexNumberOfSignatures a - 1)"
  from assms(3) Cons have m: "mset ?sh = mset others" by simp
  then have s: "set ?sh = set others" by (rule mset_eq_setD)
  from m have "mset (map publicKey ?sh) = mset (map publicKey others)" by simp
  with assms(2) Cons have d: "distinct (map publicKey ?sh)"
    by (metis distinct.simps(2) list.simps(9) mset_eq_imp_distinct_iff)
  then have dt: "distinct (map publicKey (take ?n ?sh))"
    by (simp add: take_map [symmetric])
  from assms(2) Cons have "publicKey p \<notin> publicKey ` set others" by simp
  with s have "publicKey p \<notin> publicKey ` set (take ?n ?sh)"
    using set_take_subset [of ?n ?sh] by blast
  with dt s Cons show ?thesis
    using set_take_subset [of ?n ?sh]
    by (auto simp: selectedSignatures_Cons [OF assms(1)])
qed

lemma selected_length:
  assumes "1 \<le> dexNumberOfSignatures a"
    and "sigs \<noteq> []"
    and "mset (shuffle ev (tl sigs)) = mset (tl sigs)"
  shows "length (selectedSignatures ev a sigs) = min (length sigs) (nat (dexNumberOfSignatures a))"
proof (cases sigs)
  case Nil
  with assms(2) show ?thesis by simp
next
  case (Cons p others)
  from assms(3) Cons have "length (shuffle ev others) = length others"
    by (metis list.sel(3) mset_eq_length)
  with assms(1) Cons show ?thesis
    by (simp add: selectedSignatures_Cons [OF assms(1)])
qed



subsection \<open>The examples, evaluated\<close>


lemma one_packet_vector:
  "assembledSignatures example_env loaded_dex [packet ''bb'' ''0b''] = [[], [11], []]"
  "assembledSignatures silent_env loaded_dex [packet ''bb'' ''0b''] = [[], [11], []]"
  by (simp_all add: assembledSignatures_def selectedSignatures_def slice0_def
      publicKeySignatures_def silent_env_def example_env_def loaded_dex_def packet_def
      hex_value_def Let_def)

lemma three_packets_vector:
  "selectedSignatures example_env loaded_dex three_packets = [packet ''bb'' ''0b'', packet ''aa'' ''0a'']"
  "assembledSignatures example_env loaded_dex three_packets = [[10], [11], []]"
  by (simp_all add: assembledSignatures_def selectedSignatures_def slice0_def
      publicKeySignatures_def example_env_def loaded_dex_def packet_def three_packets_def
      hex_value_def Let_def)

lemma hex_more:
  "Buffer_from_hex ''aa'' = [170]"
  "Buffer_from_hex ''0000000000000000'' = [0, 0, 0, 0, 0, 0, 0, 0]"
  "Buffer_toString_hex [11] = ''0b''"
  by (simp_all add: hex_value_def Let_def Buffer_toString_hex_def)

lemma env_fields:
  "BigInt example_env = toy_BigInt" "BigInt silent_env = toy_BigInt"
  "getAddressFromLisk32Address example_env = toy_lisk32"
  "getAddressFromLisk32Address silent_env = toy_lisk32"
  "getBytes example_env = toy_getBytes" "getBytes silent_env = toy_getBytes"
  "axios_post example_env = accepting_node" "axios_post silent_env = silent_node"
  "shuffle example_env = rev" "shuffle silent_env = rev"
  by (simp_all add: silent_env_def example_env_def)

lemma signedTxn_example:
  "signedTxn example_env loaded_dex (prepared [packet ''bb'' ''0b''])
     = Inr (signed_example [[], [11], []])"
  "signedTxn silent_env loaded_dex (prepared [packet ''bb'' ''0b''])
     = Inr (signed_example [[], [11], []])"
  by (simp_all add: signedTxn_def prepared_def one_packet_vector hex_more signed_example_def
      env_fields toy_BigInt_def toy_lisk32_def
      del: Buffer_from_hex.simps)

lemma getBytes_example:
  "getBytes example_env (signed_example [[], [11], []]) = Inr [11]"
  "getBytes silent_env (signed_example [[], [11], []]) = Inr [11]"
  by (simp_all add: env_fields toy_getBytes_def signed_example_def)

lemma post_example:
  "axios_post example_env (serviceURL (liskServiceRepo loaded_dex) @ Transactions_path)
     [(''transaction'', JStr (Buffer_toString_hex [11]))]
     = Inr \<lparr>data = JObj [(''message'', JStr ''ok''), (''transactionID'', JStr ''ab12'')]\<rparr>"
  "axios_post silent_env (serviceURL (liskServiceRepo loaded_dex) @ Transactions_path)
     [(''transaction'', JStr (Buffer_toString_hex [11]))]
     = Inr \<lparr>data = JObj [(''message'', JStr ''ok'')]\<rparr>"
  by (simp_all add: env_fields accepting_node_def silent_node_def)


lemma load_plain_example: "load example_env plain_adapter = Inr loaded_plain"
  by (simp add: load_def plain_adapter_def new_LiskV3DEXAdapter_def or_default_def
      new_LiskServiceRepository_def DEFAULT_MODULE_ALIAS_def DEFAULT_MAIN_NET_URL_def
      example_env_def channel_ok_def getAuth_examples plain_account_def Array_from_Set_def
      loaded_plain_def LiskV3DEXAdapter.extend_def loaded_adapter.fields_def)

subsection \<open>The claims about postTransaction\<close>

text \<open>
  C7. A transaction is submitted when its fields convert, \<open>getBytes\<close> encodes it and the
  POST of the hex payload resolves with \<open>response\<close>, whose body is \<open>data response\<close>. If
  the body is absent (or any falsy value), or has no \<open>transactionID\<close> field, then
  \<open>postTransaction\<close> raises the \<open>InvalidActionError\<close> named \<open>transactionBroadcastError\<close>,
  with the cause \<open>Invalid transaction response\<close>. If the body holds a transaction
  identifier, a \<open>transactionID\<close> that is a non-empty string, \<open>postTransaction\<close> completes
  without error.
\<close>

theorem postTransaction_requires_transactionID:
  assumes "signedTxn ev a t = Inr stx"
    and "getBytes ev stx = Inr binaryTxn"
    and "axios_post ev (serviceURL (liskServiceRepo a) @ Transactions_path)
           [(''transaction'', JStr (Buffer_toString_hex binaryTxn))] = Inr response"
  shows "(\<not> truthy (data response) \<or> js_get (data response) ''transactionID'' = JUndefined \<longrightarrow>
            postTransaction ev a t =
              Inl (InvalidActionError transactionBroadcastError
                ''Error broadcasting transaction to the lisk network - Invalid transaction response''
                (Some (Error ''Invalid transaction response''))))
       \<and> (\<forall>body identifier. data response = JObj body
              \<and> map_of body ''transactionID'' = Some (JStr identifier) \<and> identifier \<noteq> [] \<longrightarrow>
            postTransaction ev a t = Inr ())
       \<and> (postTransaction ev a t = Inr ()) =
           (truthy (data response) \<and> truthy (js_get (data response) ''transactionID''))"
proof -
  note r = postTransaction_response [OF assms]
  have 1: "\<not> truthy (data response) \<or> js_get (data response) ''transactionID'' = JUndefined \<longrightarrow>
            postTransaction ev a t =
              Inl (InvalidActionError transactionBroadcastError
                ''Error broadcasting transaction to the lisk network - Invalid transaction response''
                (Some (Error ''Invalid transaction response'')))"
    using r by auto
  have 2: "\<forall>body identifier. data response = JObj body
              \<and> map_of body ''transactionID'' = Some (JStr identifier) \<and> identifier \<noteq> [] \<longrightarrow>
            postTransaction ev a t = Inr ()"
    using r by auto
  have 3: "(postTransaction ev a t = Inr ()) =
           (truthy (data response) \<and> truthy (js_get (data response) ''transactionID''))"
    using r by simp
  from 1 2 3 show ?thesis by blast
qed



theorem postTransaction_transactionID_witness:
  "signedTxn example_env loaded_dex (prepared [packet ''bb'' ''0b''])
     = Inr (signed_example [[], [11], []])
   \<and> getBytes example_env (signed_example [[], [11], []]) = Inr [11]
   \<and> axios_post example_env (serviceURL (liskServiceRepo loaded_dex) @ Transactions_path)
         [(''transaction'', JStr (Buffer_toString_hex [11]))]
       = Inr \<lparr>data = JObj [(''message'', JStr ''ok''), (''transactionID'', JStr ''ab12'')]\<rparr>
   \<and> postTransaction example_env loaded_dex (prepared [packet ''bb'' ''0b'']) = Inr ()
   \<and> axios_post silent_env (serviceURL (liskServiceRepo loaded_dex) @ Transactions_path)
         [(''transaction'', JStr (Buffer_toString_hex [11]))]
       = Inr \<lparr>data = JObj [(''message'', JStr ''ok'')]\<rparr>
   \<and> postTransaction silent_env loaded_dex (prepared [packet ''bb'' ''0b''])
       = Inl (InvalidActionError transactionBroadcastError
               ''Error broadcasting transaction to the lisk network - Invalid transaction response''
               (Some (Error ''Invalid transaction response'')))"
proof -
  note ok = postTransaction_requires_transactionID
    [OF signedTxn_example(1) getBytes_example(1) post_example(1)]
  note silent = postTransaction_requires_transactionID
    [OF signedTxn_example(2) getBytes_example(2) post_example(2)]
  from ok have a: "postTransaction example_env loaded_dex (prepared [packet ''bb'' ''0b'']) = Inr ()"
    by simp
  from silent
  have b: "postTransaction silent_env loaded_dex (prepared [packet ''bb'' ''0b''])
       = Inl (InvalidActionError transactionBroadcastError
               ''Error broadcasting transaction to the lisk network - Invalid transaction response''
               (Some (Error ''Invalid transaction response'')))"
    by simp
  show ?thesis
    by (intro conjI signedTxn_example(1) getBytes_example(1) post_example a b)
qed

text \<open>
  C5. Let the adapter be loaded from the DEX wallet, a multisig account with threshold
  \<open>T = dexNumberOfSignatures > 0\<close>, and let the transaction carry at least \<open>T\<close>
  signature packets whose public keys are pairwise distinct member keys and whose
  signatures are not empty (the hex string decodes to at least one byte). Then, for every
  outcome of the shuffle (any permutation of the packets after the first): the signature
  vector has one entry per member key, the member keys being pairwise distinct; exactly
  \<open>T\<close> entries are not empty; the entry at the position of the first packet's key is the
  first packet's signature; the entry at each position is the signature of the selected
  packet with that member key, and empty when no selected packet has it; the selected
  packets are the first one and the first \<open>T - 1\<close> of the shuffled others; and this vector
  is the \<open>signatures\<close> field of the transaction that is encoded and sent. The member keys
  and the threshold are those of the account that \<open>load\<close> read: the keys are the
  mandatory keys followed by the optional keys, each kept where it first occurs.
\<close>

theorem quorum_signature_vector:
  assumes "load ev a0 = Inr a"
    and "0 < dexNumberOfSignatures a"
    and "dexNumberOfSignatures a \<le> int (length (signatures t))"
    and "distinct (map publicKey (signatures t))"
    and "publicKey ` set (signatures t) \<subseteq> set (dexMultisigPublicKeys a)"
    and "\<forall>p \<in> set (signatures t). Buffer_from_hex (signature p) \<noteq> []"
    and "mset (shuffle ev (tl (signatures t))) = mset (tl (signatures t))"
  shows "length (assembledSignatures ev a (signatures t)) = length (dexMultisigPublicKeys a)
       \<and> distinct (dexMultisigPublicKeys a)
       \<and> length (filter (\<lambda>s. s \<noteq> []) (assembledSignatures ev a (signatures t)))
           = nat (dexNumberOfSignatures a)
       \<and> (\<exists>i < length (dexMultisigPublicKeys a).
             dexMultisigPublicKeys a ! i = publicKey (hd (signatures t))
           \<and> assembledSignatures ev a (signatures t) ! i
               = Buffer_from_hex (signature (hd (signatures t))))
       \<and> (\<forall>i < length (dexMultisigPublicKeys a).
             assembledSignatures ev a (signatures t) ! i =
               (case find (\<lambda>p. publicKey p = dexMultisigPublicKeys a ! i)
                       (selectedSignatures ev a (signatures t)) of
                  Some p \<Rightarrow> Buffer_from_hex (signature p)
                | None \<Rightarrow> []))
       \<and> selectedSignatures ev a (signatures t)
           = hd (signatures t)
             # take (nat (dexNumberOfSignatures a - 1)) (shuffle ev (tl (signatures t)))
       \<and> length (selectedSignatures ev a (signatures t)) = nat (dexNumberOfSignatures a)
       \<and> (\<forall>stx. signedTxn ev a t = Inr stx \<longrightarrow>
             stx_signatures stx = assembledSignatures ev a (signatures t))
       \<and> (\<exists>accountAuth.
             dexMultisigPublicKeys a
               = Array_from_Set (mandatoryKeys accountAuth @ optionalKeys accountAuth)
           \<and> set (dexMultisigPublicKeys a)
               = set (mandatoryKeys accountAuth) \<union> set (optionalKeys accountAuth)
           \<and> dexNumberOfSignatures a = numberOfSignatures accountAuth
           \<and> isMultisigAccount accountAuth)"
proof -
  let ?sigs = "signatures t"
  let ?M = "dexMultisigPublicKeys a"
  let ?T = "dexNumberOfSignatures a"
  let ?sel = "selectedSignatures ev a ?sigs"
  let ?vec = "assembledSignatures ev a ?sigs"
  from assms(2) have T1: "1 \<le> ?T" by simp
  from assms(2,3) have ne: "?sigs \<noteq> []" by auto
  then obtain p others where sg: "?sigs = p # others" by (cases ?sigs) auto
  from load_members [OF assms(1)] have dM: "distinct ?M"
    by (auto simp: distinct_Array_from_Set)
  have len: "length ?vec = length ?M"
    by (simp add: assembledSignatures_def)
  have sel: "?sel = hd ?sigs # take (nat (?T - 1)) (shuffle ev (tl ?sigs))"
    using selectedSignatures_Cons [OF T1, of ev p others] sg by simp
  have lsel: "length ?sel = nat ?T"
    using selected_length [OF T1 ne assms(7)] assms(3) by simp
  from selected_distinct [OF T1 assms(4) assms(7)]
  have dsel: "distinct (map publicKey ?sel)" and sub: "set ?sel \<subseteq> set ?sigs"
    by simp_all
  from sub assms(5) have keys: "publicKey ` set ?sel \<subseteq> set ?M" by blast
  from sub assms(6) have nonempty: "\<forall>q \<in> set ?sel. Buffer_from_hex (signature q) \<noteq> []"
    by blast
  have cnt: "length (filter (\<lambda>s. s \<noteq> []) ?vec) = nat ?T"
    using count_nonempty_eq [OF dM dsel keys nonempty] lsel by simp
  have pos: "\<forall>i < length ?M. ?vec ! i =
               (case find (\<lambda>q. publicKey q = ?M ! i) ?sel of
                  Some q \<Rightarrow> Buffer_from_hex (signature q)
                | None \<Rightarrow> [])"
    using assembledSignatures_nth [OF dsel] by blast
  have first: "\<exists>i < length ?M. ?M ! i = publicKey (hd ?sigs)
                 \<and> ?vec ! i = Buffer_from_hex (signature (hd ?sigs))"
  proof -
    from assms(5) sg have "publicKey p \<in> set ?M" by simp
    then obtain i where i: "i < length ?M" and Mi: "?M ! i = publicKey p"
      by (auto simp: in_set_conv_nth)
    from sel sg have "find (\<lambda>q. publicKey q = publicKey p) ?sel = Some p" by simp
    with pos i Mi have "?vec ! i = Buffer_from_hex (signature p)" by simp
    with i Mi sg show ?thesis by auto
  qed
  have stx: "\<forall>stx. signedTxn ev a t = Inr stx \<longrightarrow> stx_signatures stx = ?vec"
    using signedTxn_signatures by blast
  from load_members [OF assms(1)] assms(2)
  have acc: "\<exists>accountAuth.
             ?M = Array_from_Set (mandatoryKeys accountAuth @ optionalKeys accountAuth)
           \<and> set ?M = set (mandatoryKeys accountAuth) \<union> set (optionalKeys accountAuth)
           \<and> ?T = numberOfSignatures accountAuth
           \<and> isMultisigAccount accountAuth"
    by (auto simp: set_Array_from_Set isMultisigAccount_def)
  show ?thesis
    by (intro conjI len dM cnt first pos sel lsel stx acc)
qed


theorem quorum_signature_vector_witness:
  "load example_env dex_adapter = Inr loaded_dex
   \<and> 0 < dexNumberOfSignatures loaded_dex
   \<and> dexNumberOfSignatures loaded_dex \<le> int (length (signatures (prepared three_packets)))
   \<and> distinct (map publicKey (signatures (prepared three_packets)))
   \<and> publicKey ` set (signatures (prepared three_packets)) \<subseteq> set (dexMultisigPublicKeys loaded_dex)
   \<and> map (\<lambda>p. Buffer_from_hex (signature p)) (signatures (prepared three_packets))
       = [[11], [12], [10]]
   \<and> mset (shuffle example_env (tl (signatures (prepared three_packets))))
       = mset (tl (signatures (prepared three_packets)))
   \<and> length (filter (\<lambda>s. s \<noteq> []) (assembledSignatures example_env loaded_dex
                                        (signatures (prepared three_packets)))) = 2
   \<and> assembledSignatures example_env loaded_dex (signatures (prepared three_packets))
       = [[10], [11], []]"
proof -
  have s: "signatures (prepared x) = x" for x
    by (simp add: prepared_def)
  have 2: "0 < dexNumberOfSignatures loaded_dex" by (simp add: loaded_dex_def)
  have 3: "dexNumberOfSignatures loaded_dex \<le> int (length (signatures (prepared three_packets)))"
    by (simp add: s loaded_dex_def three_packets_def)
  have 4: "distinct (map publicKey (signatures (prepared three_packets)))"
    by (simp add: s three_packets_def packet_def)
  have 5: "publicKey ` set (signatures (prepared three_packets))
             \<subseteq> set (dexMultisigPublicKeys loaded_dex)"
    by (simp add: s three_packets_def packet_def loaded_dex_def)
  have d: "map (\<lambda>p. Buffer_from_hex (signature p)) (signatures (prepared three_packets))
             = [[11], [12], [10]]"
    by (simp add: s three_packets_def packet_def hex_value_def Let_def)
  have 6: "\<forall>p \<in> set (signatures (prepared three_packets)). Buffer_from_hex (signature p) \<noteq> []"
    by (simp add: s three_packets_def packet_def hex_value_def Let_def)
  have 7: "mset (shuffle example_env (tl (signatures (prepared three_packets))))
             = mset (tl (signatures (prepared three_packets)))"
    by (simp add: env_fields)
  from quorum_signature_vector [OF load_example 2 3 4 5 6 7]
  have c: "length (filter (\<lambda>s. s \<noteq> []) (assembledSignatures example_env loaded_dex
                                            (signatures (prepared three_packets))))
             = nat (dexNumberOfSignatures loaded_dex)"
    by blast
  then have c': "length (filter (\<lambda>s. s \<noteq> []) (assembledSignatures example_env loaded_dex
                                            (signatures (prepared three_packets)))) = 2"
    by (simp add: loaded_dex_def)
  have v: "assembledSignatures example_env loaded_dex (signatures (prepared three_packets))
             = [[10], [11], []]"
    by (simp only: s three_packets_vector)
  show ?thesis
    by (intro conjI load_example 2 3 4 5 d 7 c' v)
qed

text \<open>
  C10 (as amended). Let the adapter be loaded with a threshold \<open>T \<ge> 1\<close> and let the
  transaction carry \<open>L \<ge> 1\<close> packets. For every outcome of the shuffle,
  \<open>postTransaction\<close> selects exactly \<open>min L T\<close> packets. When \<open>L < T\<close>, all the
  packets are selected, fewer than \<open>T\<close> entries of the signature vector are not empty, and
  nothing checks the quorum: whenever the fields convert, the encoding succeeds and the
  service answers with a transaction identifier, the transaction with this vector has been
  sent and \<open>postTransaction\<close> completes without error.
\<close>

theorem under_quorum_is_broadcast:
  assumes "load ev a0 = Inr a"
    and "signatures t \<noteq> []"
    and "1 \<le> dexNumberOfSignatures a"
    and "mset (shuffle ev (tl (signatures t))) = mset (tl (signatures t))"
  shows "length (selectedSignatures ev a (signatures t))
           = min (length (signatures t)) (nat (dexNumberOfSignatures a))
       \<and> (int (length (signatures t)) < dexNumberOfSignatures a \<longrightarrow>
            mset (selectedSignatures ev a (signatures t)) = mset (signatures t)
          \<and> length (filter (\<lambda>s. s \<noteq> []) (assembledSignatures ev a (signatures t)))
              < nat (dexNumberOfSignatures a)
          \<and> (\<forall>stx binaryTxn response.
                signedTxn ev a t = Inr stx
              \<and> getBytes ev stx = Inr binaryTxn
              \<and> axios_post ev (serviceURL (liskServiceRepo a) @ Transactions_path)
                    [(''transaction'', JStr (Buffer_toString_hex binaryTxn))] = Inr response
              \<and> truthy (data response) \<and> truthy (js_get (data response) ''transactionID'')
              \<longrightarrow> stx_signatures stx = assembledSignatures ev a (signatures t)
                \<and> postTransaction ev a t = Inr ()))"
proof -
  let ?sigs = "signatures t"
  let ?T = "dexNumberOfSignatures a"
  let ?sel = "selectedSignatures ev a ?sigs"
  from load_members [OF assms(1)] have dM: "distinct (dexMultisigPublicKeys a)"
    by (auto simp: distinct_Array_from_Set)
  have l: "length ?sel = min (length ?sigs) (nat ?T)"
    by (rule selected_length [OF assms(3) assms(2) assms(4)])
  have u: "int (length ?sigs) < ?T \<longrightarrow>
            mset ?sel = mset ?sigs
          \<and> length (filter (\<lambda>s. s \<noteq> []) (assembledSignatures ev a ?sigs)) < nat ?T
          \<and> (\<forall>stx binaryTxn response.
                signedTxn ev a t = Inr stx
              \<and> getBytes ev stx = Inr binaryTxn
              \<and> axios_post ev (serviceURL (liskServiceRepo a) @ Transactions_path)
                    [(''transaction'', JStr (Buffer_toString_hex binaryTxn))] = Inr response
              \<and> truthy (data response) \<and> truthy (js_get (data response) ''transactionID'')
              \<longrightarrow> stx_signatures stx = assembledSignatures ev a ?sigs
                \<and> postTransaction ev a t = Inr ())"
  proof
    assume less: "int (length ?sigs) < ?T"
    from assms(2) obtain p others where sg: "?sigs = p # others" by (cases ?sigs) auto
    from assms(4) sg have m: "mset (shuffle ev others) = mset others" by simp
    then have "length (shuffle ev others) = length others" by (rule mset_eq_length)
    with less sg have "take (nat (?T - 1)) (shuffle ev others) = shuffle ev others" by simp
    with sg m have all: "mset ?sel = mset ?sigs"
      by (simp add: selectedSignatures_Cons [OF assms(3)])
    from count_nonempty_le [OF dM, of ev ?sigs] l less
    have few: "length (filter (\<lambda>s. s \<noteq> []) (assembledSignatures ev a ?sigs)) < nat ?T"
      by simp
    have sent: "\<forall>stx binaryTxn response.
                signedTxn ev a t = Inr stx
              \<and> getBytes ev stx = Inr binaryTxn
              \<and> axios_post ev (serviceURL (liskServiceRepo a) @ Transactions_path)
                    [(''transaction'', JStr (Buffer_toString_hex binaryTxn))] = Inr response
              \<and> truthy (data response) \<and> truthy (js_get (data response) ''transactionID'')
              \<longrightarrow> stx_signatures stx = assembledSignatures ev a ?sigs
                \<and> postTransaction ev a t = Inr ()"
    proof (intro allI impI)
      fix stx binaryTxn response
      assume h: "signedTxn ev a t = Inr stx
              \<and> getBytes ev stx = Inr binaryTxn
              \<and> axios_post ev (serviceURL (liskServiceRepo a) @ Transactions_path)
                    [(''transaction'', JStr (Buffer_toString_hex binaryTxn))] = Inr response
              \<and> truthy (data response) \<and> truthy (js_get (data response) ''transactionID'')"
      then have 1: "signedTxn ev a t = Inr stx"
        and 2: "getBytes ev stx = Inr binaryTxn"
        and 3: "axios_post ev (serviceURL (liskServiceRepo a) @ Transactions_path)
                  [(''transaction'', JStr (Buffer_toString_hex binaryTxn))] = Inr response"
        and 4: "truthy (data response)" "truthy (js_get (data response) ''transactionID'')"
        by blast+
      from postTransaction_response [OF 1 2 3] 4 have "postTransaction ev a t = Inr ()"
        by simp
      with signedTxn_signatures [OF 1]
      show "stx_signatures stx = assembledSignatures ev a ?sigs \<and> postTransaction ev a t = Inr ()"
        by simp
    qed
    from all few sent
    show "mset ?sel = mset ?sigs
          \<and> length (filter (\<lambda>s. s \<noteq> []) (assembledSignatures ev a ?sigs)) < nat ?T
          \<and> (\<forall>stx binaryTxn response.
                signedTxn ev a t = Inr stx
              \<and> getBytes ev stx = Inr binaryTxn
              \<and> axios_post ev (serviceURL (liskServiceRepo a) @ Transactions_path)
                    [(''transaction'', JStr (Buffer_toString_hex binaryTxn))] = Inr response
              \<and> truthy (data response) \<and> truthy (js_get (data response) ''transactionID'')
              \<longrightarrow> stx_signatures stx = assembledSignatures ev a ?sigs
                \<and> postTransaction ev a t = Inr ())"
      by (intro conjI)
  qed
  from l u show ?thesis by (rule conjI)
qed


theorem under_quorum_witness:
  "load example_env dex_adapter = Inr loaded_dex
   \<and> signatures (prepared [packet ''bb'' ''0b'']) \<noteq> []
   \<and> 1 \<le> dexNumberOfSignatures loaded_dex
   \<and> mset (shuffle example_env (tl (signatures (prepared [packet ''bb'' ''0b'']))))
       = mset (tl (signatures (prepared [packet ''bb'' ''0b''])))
   \<and> int (length (signatures (prepared [packet ''bb'' ''0b'']))) < dexNumberOfSignatures loaded_dex
   \<and> length (selectedSignatures example_env loaded_dex (signatures (prepared [packet ''bb'' ''0b''])))
       = 1
   \<and> stx_signatures (signed_example [[], [11], []]) = [[], [11], []]
   \<and> postTransaction example_env loaded_dex (prepared [packet ''bb'' ''0b'']) = Inr ()"
proof -
  let ?t = "prepared [packet ''bb'' ''0b'']"
  have s: "signatures (prepared x) = x" for x
    by (simp add: prepared_def)
  have 2: "signatures ?t \<noteq> []" by (simp add: s)
  have 3: "1 \<le> dexNumberOfSignatures loaded_dex" by (simp add: loaded_dex_def)
  have 4: "mset (shuffle example_env (tl (signatures ?t))) = mset (tl (signatures ?t))"
    by (simp add: env_fields)
  have 5: "int (length (signatures ?t)) < dexNumberOfSignatures loaded_dex"
    by (simp add: s loaded_dex_def)
  note u = under_quorum_is_broadcast [OF load_example 2 3 4]
  from u have "length (selectedSignatures example_env loaded_dex (signatures ?t))
                = min (length (signatures ?t)) (nat (dexNumberOfSignatures loaded_dex))"
    by (rule conjunct1)
  then have l: "length (selectedSignatures example_env loaded_dex (signatures ?t)) = 1"
    by (simp add: s loaded_dex_def)
  from u 5 have "\<forall>stx binaryTxn response.
                signedTxn example_env loaded_dex ?t = Inr stx
              \<and> getBytes example_env stx = Inr binaryTxn
              \<and> axios_post example_env (serviceURL (liskServiceRepo loaded_dex) @ Transactions_path)
                    [(''transaction'', JStr (Buffer_toString_hex binaryTxn))] = Inr response
              \<and> truthy (data response) \<and> truthy (js_get (data response) ''transactionID'')
              \<longrightarrow> stx_signatures stx = assembledSignatures example_env loaded_dex (signatures ?t)
                \<and> postTransaction example_env loaded_dex ?t = Inr ()"
    by blast
  from this [rule_format, of "signed_example [[], [11], []]" "[11]"
      "\<lparr>data = JObj [(''message'', JStr ''ok''), (''transactionID'', JStr ''ab12'')]\<rparr>"]
    signedTxn_example(1) getBytes_example(1) post_example(1)
  have p: "postTransaction example_env loaded_dex ?t = Inr ()"
    by simp
  have g: "stx_signatures (signed_example [[], [11], []]) = [[], [11], []]"
    by (simp add: signed_example_def)
  show ?thesis
    by (intro conjI load_example 2 3 4 5 l g p)
qed

text \<open>
  C10 as stated fails for the threshold 0, which \<open>load\<close> takes from a DEX wallet that is
  not multisig: the first packet is always kept, so one packet is selected from a list of
  one, not \<open>min 1 0 = 0\<close>.
\<close>

theorem threshold_zero_counterexample:
  "load example_env plain_adapter = Inr loaded_plain
   \<and> dexNumberOfSignatures loaded_plain = 0
   \<and> length [packet ''aa'' ''0a''] = 1
   \<and> selectedSignatures example_env loaded_plain [packet ''aa'' ''0a''] = [packet ''aa'' ''0a'']
   \<and> length (selectedSignatures example_env loaded_plain [packet ''aa'' ''0a'']) = 1
   \<and> min (length [packet ''aa'' ''0a'']) (nat (dexNumberOfSignatures loaded_plain)) = 0"
proof -
  have 1: "dexNumberOfSignatures loaded_plain = 0" by (simp add: loaded_plain_def)
  have 2: "selectedSignatures example_env loaded_plain [packet ''aa'' ''0a''] = [packet ''aa'' ''0a'']"
    by (simp add: selectedSignatures_def slice0_def env_fields 1)
  from load_plain_example 1 2 show ?thesis by simp
qed

end
